theory Spec2Isabelle
  imports Complex_Main "HOL-Library.Char_ord" "HOL-Library.List_Lexorder"
    "HOL-Library.Multiset"
begin

section \<open>Exceptions\<close>

text \<open>
  Every exception class that the modelled code raises, catches or names. A raised
  exception is represented by its class; messages are dropped. \<open>ValidationError\<close> is the
  class that \<^verbatim>\<open>transformers/base.py\<close> defines itself (a subclass of
  \<open>TransformerError\<close>); since that class statement comes after
  \<^verbatim>\<open>from pydantic import BaseModel, ValidationError\<close>, the module-level name
  \<^verbatim>\<open>ValidationError\<close> denotes it, and the class that pydantic raises is a different one,
  here \<open>PydanticValidationError\<close> (a subclass of \<open>ValueError\<close>).
\<close>

datatype exc =
    Exception
  | ValueError
  | KeyError
  | IndexError
  | AttributeError
  | NameError
  | ZeroDivisionError
  | PydanticValidationError
  | TransformerError
  | ValidationError
  | TransformationError
  | ModelError
  | FeatureError
  | PredictionError

fun parent :: "exc \<Rightarrow> exc option" where
  "parent Exception = None"
| "parent PydanticValidationError = Some ValueError"
| "parent ValidationError = Some TransformerError"
| "parent TransformationError = Some TransformerError"
| "parent FeatureError = Some ModelError"
| "parent PredictionError = Some ModelError"
| "parent e = Some Exception"

text \<open>\<open>isinstance e c\<close>: an \<^verbatim>\<open>except c\<close> clause catches \<open>e\<close>. No chain is longer than three.\<close>

definition isinstance :: "exc \<Rightarrow> exc \<Rightarrow> bool" where
  "isinstance e c =
     (e = c \<or> parent e = Some c \<or>
      (case parent e of None \<Rightarrow> False | Some p \<Rightarrow> parent p = Some c))"

section \<open>pandas helpers\<close>

text \<open>
  \<^verbatim>\<open>Series.fillna(value)\<close> with a fill value: every missing cell receives it.
\<close>

definition fillna :: "'a \<Rightarrow> 'a option list \<Rightarrow> 'a option list" where
  "fillna x col = map (\<lambda>c. Some (case c of None \<Rightarrow> x | Some y \<Rightarrow> y)) col"

text \<open>
  \<^verbatim>\<open>Series.fillna(None)\<close>: what pandas does without a fill value depends on its
  version, and the repository pins none. Up to pandas 2 the call is rejected with
  \<open>ValueError\<close> ("Must specify a fill 'value' or 'method'"); pandas 3 accepts it and
  leaves the column as it is. Where the code makes this call, the behaviour of the
  installed pandas is a parameter: a function from the column to the new column or an
  exception. These are the two behaviours.
\<close>

definition fillna_None_rejected :: "'a option list \<Rightarrow> exc + 'a option list" where
  "fillna_None_rejected col = Inl ValueError"

definition fillna_None_accepted :: "'a option list \<Rightarrow> exc + 'a option list" where
  "fillna_None_accepted col = Inr col"

text \<open>\<^verbatim>\<open>str.lower()\<close> on ASCII text.\<close>

definition lower_char :: "char \<Rightarrow> char" where
  "lower_char c =
     (case map_of (zip ''ABCDEFGHIJKLMNOPQRSTUVWXYZ'' ''abcdefghijklmnopqrstuvwxyz'') c of
        None \<Rightarrow> c
      | Some l \<Rightarrow> l)"

definition lower :: "string \<Rightarrow> string" where
  "lower s = map lower_char s"

section \<open>Transformers (data\_pipeline/transformers, validation/schemas.py)\<close>

text \<open>An item of a transaction is a dictionary; the schema only looks at its keys.\<close>

type_synonym item = "(string \<times> string) list"

text \<open>
  A row of the retail frame, under the standardized column names that
  \<^verbatim>\<open>RetailTransformer.transform\<close> renames to. Timestamps are already points in time
  and \<open>items\<close> already lists (the branch of \<^verbatim>\<open>_parse_items\<close> that returns its
  argument). \<open>points_earned\<close> may be missing.
\<close>

record retail_row =
  transaction_id :: string
  store_id :: string
  customer_id :: string
  transaction_timestamp :: int
  total_amount :: real
  banner :: string
  items :: "item list"
  payment_method :: string
  points_earned :: "real option"

text \<open>
  The validator of \<^verbatim>\<open>RetailTransaction.items\<close>: a \<open>ValueError\<close> for an empty list or
  an item without one of the three keys.
\<close>

definition validate_items :: "item list \<Rightarrow> exc + item list" where
  "validate_items v =
     (if v = [] then Inl ValueError
      else if list_all (\<lambda>item. list_all (\<lambda>k. k \<in> set (map fst item))
                                  [''sku'', ''quantity'', ''price'']) v
      then Inr v
      else Inl ValueError)"

text \<open>
  \<^verbatim>\<open>RetailTransaction(**record)\<close>: the field constraint \<^verbatim>\<open>ge=0\<close> on
  \<open>total_amount\<close> and the items validator; pydantic reports any failure as its own
  ValidationError.
\<close>

definition RetailTransaction :: "retail_row \<Rightarrow> exc + retail_row" where
  "RetailTransaction record =
     (if \<not> 0 \<le> total_amount record then Inl PydanticValidationError
      else case validate_items (items record) of
             Inl e \<Rightarrow> Inl PydanticValidationError
           | Inr v \<Rightarrow> Inr record)"

text \<open>
  \<^verbatim>\<open>BaseTransformer.validate_record\<close>. The state is \<open>error_records\<close>. The handler is
  \<^verbatim>\<open>except ValidationError\<close>, with the module's own class; any other exception leaves
  the function.
\<close>

definition validate_record ::
  "('r \<Rightarrow> exc + 'r) \<Rightarrow> ('r \<times> exc) list \<Rightarrow> 'r \<Rightarrow> (exc + 'r option) \<times> ('r \<times> exc) list" where
  "validate_record schema error_records record =
     (case schema record of
        Inr validated \<Rightarrow> (Inr (Some validated), error_records)
      | Inl e \<Rightarrow>
          if isinstance e ValidationError
          then (Inr None, error_records @ [(record, e)])
          else (Inl e, error_records))"

text \<open>
  The loop \<^verbatim>\<open>for record in data.to_dict('records')\<close> of both transformers: a record
  that validates is appended, \<open>None\<close> is skipped, an exception ends the loop.
\<close>

fun validate_loop ::
  "('r \<Rightarrow> exc + 'r) \<Rightarrow> ('r \<times> exc) list \<Rightarrow> 'r list \<Rightarrow> 'r list \<Rightarrow> (exc + 'r list) \<times> ('r \<times> exc) list" where
  "validate_loop schema error_records validated_records [] = (Inr validated_records, error_records)"
| "validate_loop schema error_records validated_records (record # rest) =
     (case validate_record schema error_records record of
        (Inl e, errs) \<Rightarrow> (Inl e, errs)
      | (Inr None, errs) \<Rightarrow> validate_loop schema errs validated_records rest
      | (Inr (Some validated), errs) \<Rightarrow>
          validate_loop schema errs (validated_records @ [validated]) rest)"

text \<open>
  \<^verbatim>\<open>RetailTransformer.transform\<close>: clear the errors, fill and lower the columns,
  validate row by row, raise for an empty result; the handler
  \<^verbatim>\<open>except Exception\<close> turns every exception of the body into
  \<open>TransformationError\<close>. The result is the outcome and \<open>error_records\<close>.
\<close>

definition retail_transform ::
  "retail_row list \<Rightarrow> (exc + retail_row list) \<times> (retail_row \<times> exc) list" where
  "retail_transform data =
     (let pts = fillna 0 (map points_earned data);
          data1 = map (\<lambda>(r, p). r\<lparr>points_earned := p, banner := lower (banner r)\<rparr>)
                      (zip data pts)
      in case validate_loop RetailTransaction [] [] data1 of
           (Inl e, errs) \<Rightarrow> (Inl TransformationError, errs)
         | (Inr validated_records, errs) \<Rightarrow>
             if validated_records = [] then (Inl TransformationError, errs)
             else (Inr validated_records, errs))"

text \<open>A row of the Scene+ frame under the standardized column names.\<close>

record scene_row =
  scene_transaction_id :: string
  member_id :: string
  transaction_type :: string
  points :: real
  scene_timestamp :: int
  partner :: string
  source_transaction_id :: "string option"

definition SceneTransaction :: "scene_row \<Rightarrow> exc + scene_row" where
  "SceneTransaction record =
     (if lower (transaction_type record) \<notin> set [''earn'', ''redeem'']
      then Inl PydanticValidationError
      else Inr (record\<lparr>transaction_type := lower (transaction_type record)\<rparr>))"

text \<open>
  \<^verbatim>\<open>SceneTransformer.transform\<close>: as the retail one, with
  \<^verbatim>\<open>data['source_transaction_id'].fillna(None)\<close> before the validation loop;
  \<open>fillna_None\<close> is what the installed pandas does with that call.
\<close>

definition scene_transform ::
  "(string option list \<Rightarrow> exc + string option list) \<Rightarrow> scene_row list
   \<Rightarrow> (exc + scene_row list) \<times> (scene_row \<times> exc) list" where
  "scene_transform fillna_None data =
     (let data1 = map (\<lambda>r. r\<lparr>transaction_type := lower (transaction_type r),
                                partner := lower (partner r)\<rparr>) data
      in case fillna_None (map source_transaction_id data1) of
           Inl e \<Rightarrow> (Inl TransformationError, [])
         | Inr ids \<Rightarrow>
             (let data2 = map (\<lambda>(r, i). r\<lparr>source_transaction_id := i\<rparr>) (zip data1 ids)
              in case validate_loop SceneTransaction [] [] data2 of
                   (Inl e, errs) \<Rightarrow> (Inl TransformationError, errs)
                 | (Inr validated_records, errs) \<Rightarrow>
                     if validated_records = [] then (Inl TransformationError, errs)
                     else (Inr validated_records, errs)))"

text \<open>A valid retail record and one with a negative amount, for the 50-record batch.\<close>

definition good_record :: retail_row where
  "good_record =
     \<lparr>transaction_id = ''T1'', store_id = ''S1'', customer_id = ''C1'',
      transaction_timestamp = 0, total_amount = 20, banner = ''Sobeys'',
      items = [[(''sku'', ''A''), (''quantity'', ''1''), (''price'', ''20'')]],
      payment_method = ''credit'', points_earned = Some 5\<rparr>"

definition bad_record :: retail_row where
  "bad_record = good_record\<lparr>transaction_id := ''T2'', total_amount := - 1\<rparr>"

text \<open>A valid Scene+ record, as the transformer returns it.\<close>

definition earn_record :: scene_row where
  "earn_record =
     \<lparr>scene_transaction_id = ''S1'', member_id = ''M1'', transaction_type = ''earn'',
      points = 100, scene_timestamp = 0, partner = ''cineplex'',
      source_transaction_id = Some ''T1''\<rparr>"

section \<open>Numbers and frames of the models (models/)\<close>

text \<open>
  A float of the models: a real number, an infinity or NaN. The inputs are taken as
  finite reals and computed exactly; the only operation of the modelled code that leaves
  the finite values is division, which follows numpy on a zero divisor (no exception:
  an infinity with the sign of the dividend, NaN for \<open>0/0\<close>).
\<close>

datatype fval = Fin real | PInf | NInf | NaN

definition fdiv :: "real \<Rightarrow> real \<Rightarrow> fval" where
  "fdiv x y =
     (if y \<noteq> 0 then Fin (x / y)
      else if 0 < x then PInf
      else if x < 0 then NInf
      else NaN)"

text \<open>
  The arithmetic of doubles where its rounding matters (the min-max scaler and the
  ranking score): a finite double is the real number it denotes, and the four operations
  are parameters, any functions on reals, so that no particular rounding is assumed.
  Results are taken to stay finite. \<open>exact_ops\<close> are the operations without
  rounding, for examples.
\<close>

record float_ops =
  f_add :: "real \<Rightarrow> real \<Rightarrow> real"
  f_sub :: "real \<Rightarrow> real \<Rightarrow> real"
  f_mul :: "real \<Rightarrow> real \<Rightarrow> real"
  f_div :: "real \<Rightarrow> real \<Rightarrow> real"

definition exact_ops :: float_ops where
  "exact_ops = \<lparr>f_add = (+), f_sub = (-), f_mul = (*), f_div = (/)\<rparr>"

text \<open>\<open>v > c\<close> and \<open>v < c\<close> on floats: false for NaN.\<close>

fun fgt :: "fval \<Rightarrow> real \<Rightarrow> bool" where
  "fgt (Fin x) c = (c < x)"
| "fgt PInf c = True"
| "fgt NInf c = False"
| "fgt NaN c = False"

fun flt :: "fval \<Rightarrow> real \<Rightarrow> bool" where
  "flt (Fin x) c = (x < c)"
| "flt PInf c = False"
| "flt NInf c = True"
| "flt NaN c = False"

text \<open>
  A row of the transaction frame that both models read, and the frame with the names of
  its columns (the models check them). A timestamp is a count of nanoseconds;
  \<^verbatim>\<open>Timedelta.days\<close> is the floor of a difference divided by one day.
\<close>

record txn =
  customer_id :: string
  transaction_timestamp :: int
  total_amount :: real
  banner :: string
  points_earned :: real
  items :: "item list"

record frame =
  columns :: "string list"
  rows :: "txn list"

definition day :: int where
  "day = 86400000000000"

definition days :: "int \<Rightarrow> int" where
  "days delta = delta div day"

definition mean :: "real list \<Rightarrow> real" where
  "mean xs = sum_list xs / real (length xs)"

text \<open>\<^verbatim>\<open>groupby('customer_id')\<close>: the groups in the sorted order of their keys.\<close>

definition group_keys :: "txn list \<Rightarrow> string list" where
  "group_keys ts = sort (remdups (map customer_id ts))"

definition group_of :: "txn list \<Rightarrow> string \<Rightarrow> txn list" where
  "group_of ts c = filter (\<lambda>t. customer_id t = c) ts"

definition missing_cols :: "string list \<Rightarrow> frame \<Rightarrow> string list" where
  "missing_cols required_columns data =
     filter (\<lambda>c. c \<notin> set (columns data)) required_columns"

text \<open>Example data: a purchase of one item, and the columns of a complete frame.\<close>

definition purchase :: "string \<Rightarrow> int \<Rightarrow> real \<Rightarrow> txn" where
  "purchase c t amount =
     \<lparr>customer_id = c, transaction_timestamp = t, total_amount = amount,
      banner = ''sobeys'', points_earned = 10,
      items = [[(''sku'', ''A''), (''quantity'', ''1''), (''price'', ''1'')]]\<rparr>"

definition all_columns :: "string list" where
  "all_columns = [''customer_id'', ''transaction_timestamp'', ''total_amount'',
                  ''banner'', ''points_earned'', ''items'', ''segment'']"

section \<open>Customer segmentation (models/customer\_segmentation.py, models/base.py)\<close>

record seg_profile =
  customer_id :: string
  transaction_count :: nat
  last_transaction_date :: int
  days_since_last_visit :: int
  total_spend :: real
  average_transaction_value :: real
  total_points :: real
  average_points_earned :: real
  unique_banners :: nat
  average_basket_size :: real

text \<open>
  \<^verbatim>\<open>CustomerSegmentation.preprocess_data\<close>. \<open>current_date\<close> is the maximum timestamp
  of the whole frame. A frame without rows has no group.
\<close>

definition seg_preprocess_data :: "frame \<Rightarrow> exc + seg_profile list" where
  "seg_preprocess_data data =
     (if missing_cols [''customer_id'', ''transaction_timestamp'', ''total_amount'',
                       ''banner'', ''points_earned'', ''items''] data \<noteq> []
      then Inl FeatureError
      else if rows data = [] then Inr []
      else
        (let current_date = Max (set (map transaction_timestamp (rows data)))
         in Inr (map (\<lambda>c.
              (let x = group_of (rows data) c
               in \<lparr>customer_id = c,
                   transaction_count = length x,
                   last_transaction_date = Max (set (map transaction_timestamp x)),
                   days_since_last_visit =
                     days (current_date - Max (set (map transaction_timestamp x))),
                   total_spend = sum_list (map total_amount x),
                   average_transaction_value = mean (map total_amount x),
                   total_points = sum_list (map points_earned x),
                   average_points_earned = mean (map points_earned x),
                   unique_banners = length (remdups (map banner x)),
                   average_basket_size = mean (map (\<lambda>t. real (length (items t))) x)\<rparr>))
              (group_keys (rows data)))))"

text \<open>
  sklearn's \<^verbatim>\<open>StandardScaler\<close> on a frame given by its columns. Fitting rejects a frame
  without samples and any infinity with \<open>ValueError\<close>; NaN is allowed, skipped by the
  statistics and passed through by the transformation. A zero scale is replaced by 1.
\<close>

text \<open>The fitted attributes \<^verbatim>\<open>mean_\<close>, \<^verbatim>\<open>var_\<close> and \<^verbatim>\<open>scale_\<close>.\<close>

record std_scaler =
  sc_mean :: "fval list"
  sc_var :: "fval list"
  sc_scale :: "fval list"

definition finite_vals :: "fval list \<Rightarrow> real list" where
  "finite_vals col = concat (map (\<lambda>v. case v of Fin x \<Rightarrow> [x] | _ \<Rightarrow> []) col)"

definition col_mean :: "fval list \<Rightarrow> fval" where
  "col_mean col = (if finite_vals col = [] then NaN else Fin (mean (finite_vals col)))"

definition col_var :: "fval list \<Rightarrow> fval" where
  "col_var col =
     (if finite_vals col = [] then NaN
      else Fin (mean (map (\<lambda>x. (x - mean (finite_vals col))\<^sup>2) (finite_vals col))))"

definition col_scale :: "fval list \<Rightarrow> fval" where
  "col_scale col =
     (case col_var col of
        Fin v \<Rightarrow> Fin (if v = 0 then 1 else sqrt v)
      | other \<Rightarrow> other)"

definition has_inf :: "fval list \<Rightarrow> bool" where
  "has_inf col = list_ex (\<lambda>v. v = PInf \<or> v = NInf) col"

definition StandardScaler_fit :: "fval list list \<Rightarrow> exc + std_scaler" where
  "StandardScaler_fit cols =
     (if list_ex (\<lambda>col. col = []) cols \<or> list_ex has_inf cols then Inl ValueError
      else Inr \<lparr>sc_mean = map col_mean cols, sc_var = map col_var cols,
                sc_scale = map col_scale cols\<rparr>)"

fun standardize :: "fval \<Rightarrow> fval \<Rightarrow> fval \<Rightarrow> fval" where
  "standardize (Fin m) (Fin s) (Fin x) = Fin ((x - m) / s)"
| "standardize m s x = NaN"

definition StandardScaler_transform :: "std_scaler \<Rightarrow> fval list list \<Rightarrow> fval list list" where
  "StandardScaler_transform sc cols =
     map (\<lambda>(col, m, s). map (standardize m s) col) (zip cols (zip (sc_mean sc) (sc_scale sc)))"

text \<open>
  A fitted or unfitted \<^verbatim>\<open>KMeans\<close> object, and the state of a
  \<^verbatim>\<open>CustomerSegmentation\<close> instance (the fields of \<^verbatim>\<open>BaseModel\<close> and its own).
  \<open>scaler = None\<close> is a scaler that has not been fitted, \<open>model = None\<close> is
  \<^verbatim>\<open>self.model is None\<close>.
\<close>

datatype kmeans = Unfitted | Fitted "real list list"

record seg_model =
  n_clusters :: nat
  scaler :: "std_scaler option"
  model :: "kmeans option"
  feature_columns :: "string list"
  target_column :: "string option"
  last_trained :: "int option"
  model_params :: "(string \<times> nat) list"

definition CustomerSegmentation :: "nat \<Rightarrow> seg_model" where
  "CustomerSegmentation k =
     \<lparr>n_clusters = k, scaler = None, model = None,
      feature_columns = [''total_spend'', ''visit_frequency'', ''points_balance'',
        ''points_redemption_rate'', ''cross_banner_shopping'', ''basket_size'',
        ''days_since_last_visit'', ''product_categories_count''],
      target_column = None, last_trained = None, model_params = [(''n_clusters'', k)]\<rparr>"

text \<open>
  The unscaled feature frame of \<^verbatim>\<open>CustomerSegmentation.engineer_features\<close>, column
  by column. \<open>date_range\<close> is one number for the whole frame.
\<close>

definition date_range :: "seg_profile list \<Rightarrow> real" where
  "date_range data =
     real_of_int (days (Max (set (map last_transaction_date data)) -
                        Min (set (map last_transaction_date data)))) / 30"

definition seg_features :: "seg_profile list \<Rightarrow> (string \<times> fval list) list" where
  "seg_features data =
     [(''total_spend'', map (\<lambda>p. Fin (total_spend p)) data),
      (''visit_frequency'',
         map (\<lambda>p. fdiv (real (transaction_count p)) (date_range data)) data),
      (''points_balance'', map (\<lambda>p. Fin (total_points p)) data),
      (''points_redemption_rate'',
         map (\<lambda>p. fdiv (average_points_earned p) (average_transaction_value p)) data),
      (''cross_banner_shopping'', map (\<lambda>p. Fin (real (unique_banners p))) data),
      (''basket_size'', map (\<lambda>p. Fin (average_basket_size p)) data),
      (''days_since_last_visit'', map (\<lambda>p. Fin (real_of_int (days_since_last_visit p))) data),
      (''product_categories_count'',
         map (\<lambda>p. Fin (real (unique_banners p) * average_basket_size p)) data)]"

text \<open>
  \<^verbatim>\<open>CustomerSegmentation.engineer_features\<close>: \<^verbatim>\<open>self.scaler.fit_transform(features)\<close>
  on every call. \<open>fit\<close> resets the scaler before it validates, so a rejected frame
  leaves it unfitted. Every exception becomes \<open>FeatureError\<close>.
\<close>

definition seg_engineer_features ::
  "seg_model \<Rightarrow> seg_profile list \<Rightarrow> (exc + (string \<times> fval list) list) \<times> seg_model" where
  "seg_engineer_features self data =
     (let features = seg_features data
      in case StandardScaler_fit (map snd features) of
           Inl e \<Rightarrow> (Inl FeatureError, self\<lparr>scaler := None\<rparr>)
         | Inr sc \<Rightarrow>
             (Inr (zip (map fst features) (StandardScaler_transform sc (map snd features))),
              self\<lparr>scaler := Some sc\<rparr>))"

text \<open>
  \<^verbatim>\<open>CustomerSegmentation.train\<close>. \<open>KMeans_fit\<close> stands for sklearn's
  \<^verbatim>\<open>KMeans(n_clusters, random_state=42).fit\<close>, which is not code of the repository:
  it yields the cluster centers or raises. \<open>now\<close> is the reading of the clock.
  \<^verbatim>\<open>self.model\<close> is assigned before \<open>fit\<close> runs.
\<close>

definition train ::
  "(nat \<Rightarrow> fval list list \<Rightarrow> exc + real list list) \<Rightarrow> int \<Rightarrow> seg_model \<Rightarrow> frame
   \<Rightarrow> (exc + unit) \<times> seg_model" where
  "train KMeans_fit now self data =
     (case seg_preprocess_data data of
        Inl e \<Rightarrow> (Inl ModelError, self)
      | Inr processed_data \<Rightarrow>
          (case seg_engineer_features self processed_data of
             (Inl e, self1) \<Rightarrow> (Inl ModelError, self1)
           | (Inr features, self1) \<Rightarrow>
               (case KMeans_fit (n_clusters self1) (map snd features) of
                  Inl e \<Rightarrow> (Inl ModelError, self1\<lparr>model := Some Unfitted\<rparr>)
                | Inr centers \<Rightarrow>
                    (Inr (), self1\<lparr>model := Some (Fitted centers), last_trained := Some now\<rparr>))))"

text \<open>\<^verbatim>\<open>str.title()\<close> on ASCII text: a letter after a non-letter is put in upper case.\<close>

definition upper_char :: "char \<Rightarrow> char" where
  "upper_char c =
     (case map_of (zip ''abcdefghijklmnopqrstuvwxyz'' ''ABCDEFGHIJKLMNOPQRSTUVWXYZ'') c of
        None \<Rightarrow> c
      | Some u \<Rightarrow> u)"

definition is_alpha :: "char \<Rightarrow> bool" where
  "is_alpha c = (c \<in> set ''abcdefghijklmnopqrstuvwxyzABCDEFGHIJKLMNOPQRSTUVWXYZ'')"

fun title_from :: "bool \<Rightarrow> string \<Rightarrow> string" where
  "title_from prev_alpha [] = []"
| "title_from prev_alpha (c # cs) =
     (if prev_alpha then lower_char c else upper_char c) # title_from (is_alpha c) cs"

definition title :: "string \<Rightarrow> string" where
  "title s = title_from False s"

fun join :: "string \<Rightarrow> string list \<Rightarrow> string" where
  "join sep [] = []"
| "join sep [x] = x"
| "join sep (x # y # ys) = x @ sep @ join sep (y # ys)"

text \<open>
  The description of one center in \<^verbatim>\<open>_get_segment_descriptions\<close>; the center is read
  by the names of the eight feature columns, in their order.
\<close>

definition describe_center :: "real list \<Rightarrow> string" where
  "describe_center center =
     (let characteristics =
        (if center ! 0 > 0.5 then [''high spender'']
         else if center ! 0 < - 0.5 then [''low spender''] else []) @
        (if center ! 1 > 0.5 then [''frequent shopper'']
         else if center ! 1 < - 0.5 then [''infrequent shopper''] else []) @
        (if center ! 4 > 0.5 then [''multi-banner''] else []) @
        (if center ! 2 > 0.5 then [''points saver'']
         else if center ! 3 > 0.5 then [''points redeemer''] else [])
      in title (if characteristics \<noteq> [] then join '' & '' characteristics else ''average''))"

text \<open>
  \<^verbatim>\<open>_get_segment_descriptions\<close>: a frame of the centers under the eight column names
  (\<open>ValueError\<close> when a center has another width), then one description for each
  \<open>segment_id\<close> in \<open>range(n_clusters)\<close> (\<open>IndexError\<close> beyond the centers).
\<close>

definition get_segment_descriptions :: "seg_model \<Rightarrow> real list list \<Rightarrow> exc + (nat \<times> string) list" where
  "get_segment_descriptions self centers =
     (if list_ex (\<lambda>c. length c \<noteq> 8) centers then Inl ValueError
      else if length centers < n_clusters self then Inl IndexError
      else Inr (map (\<lambda>segment_id. (segment_id, describe_center (centers ! segment_id)))
                    [0..<n_clusters self]))"

record seg_row =
  customer_id :: string
  segment :: nat
  segment_description :: "string option"

text \<open>
  The body of the \<open>try\<close> block of \<^verbatim>\<open>CustomerSegmentation.predict\<close>.
  \<open>KMeans_predict\<close> stands for sklearn's \<^verbatim>\<open>KMeans.predict\<close> on the fitted centers.
  With \<^verbatim>\<open>self.model is None\<close> the attribute access \<^verbatim>\<open>self.model.predict\<close> raises
  \<open>AttributeError\<close>, and so does \<open>predict\<close> on an unfitted \<open>KMeans\<close>, which
  has no cluster centers yet.
\<close>

definition predict_body ::
  "(real list list \<Rightarrow> fval list list \<Rightarrow> exc + nat list) \<Rightarrow> seg_model \<Rightarrow> frame
   \<Rightarrow> (exc + seg_row list) \<times> seg_model" where
  "predict_body KMeans_predict self data =
     (case seg_preprocess_data data of
        Inl e \<Rightarrow> (Inl e, self)
      | Inr processed_data \<Rightarrow>
          (case seg_engineer_features self processed_data of
             (Inl e, self1) \<Rightarrow> (Inl e, self1)
           | (Inr features, self1) \<Rightarrow>
               (case model self1 of
                  None \<Rightarrow> (Inl AttributeError, self1)
                | Some Unfitted \<Rightarrow> (Inl AttributeError, self1)
                | Some (Fitted centers) \<Rightarrow>
                    (case KMeans_predict centers (map snd features) of
                       Inl e \<Rightarrow> (Inl e, self1)
                     | Inr segments \<Rightarrow>
                         if length segments \<noteq> length processed_data
                         then (Inl ValueError, self1)
                         else
                           (case get_segment_descriptions self1 centers of
                              Inl e \<Rightarrow> (Inl e, self1)
                            | Inr descriptions \<Rightarrow>
                                (Inr (map (\<lambda>(p, s).
                                        \<lparr>customer_id = seg_profile.customer_id p, segment = s,
                                         segment_description = map_of descriptions s\<rparr>)
                                      (zip processed_data segments)),
                                 self1))))))"

text \<open>
  \<^verbatim>\<open>CustomerSegmentation.predict\<close>: the handler is
  \<^verbatim>\<open>except Exception as e: raise PredictionError(...)\<close>, and the module imports only
  \<^verbatim>\<open>BaseModel, ModelError, FeatureError\<close> from \<^verbatim>\<open>.base\<close>: the name
  \<^verbatim>\<open>PredictionError\<close> is not bound there, so evaluating it raises \<open>NameError\<close>
  in place of the exception that was caught.
\<close>

definition predict ::
  "(real list list \<Rightarrow> fval list list \<Rightarrow> exc + nat list) \<Rightarrow> seg_model \<Rightarrow> frame
   \<Rightarrow> (exc + seg_row list) \<times> seg_model" where
  "predict KMeans_predict self data =
     (case predict_body KMeans_predict self data of
        (Inl e, self1) \<Rightarrow> (Inl NameError, self1)
      | (Inr results, self1) \<Rightarrow> (Inr results, self1))"

text \<open>
  \<^verbatim>\<open>BaseModel.save_model\<close> and \<^verbatim>\<open>load_model\<close>: the dictionary written by
  \<^verbatim>\<open>joblib.dump\<close> has exactly these five entries (writing and reading the file are
  taken to succeed).
\<close>

record model_data =
  md_model :: kmeans
  md_feature_columns :: "string list"
  md_target_column :: "string option"
  md_last_trained :: "int option"
  md_model_params :: "(string \<times> nat) list"

definition save_model :: "seg_model \<Rightarrow> exc + model_data" where
  "save_model self =
     (case model self of
        None \<Rightarrow> Inl ModelError
      | Some m \<Rightarrow>
          Inr \<lparr>md_model = m, md_feature_columns = feature_columns self,
               md_target_column = target_column self, md_last_trained = last_trained self,
               md_model_params = model_params self\<rparr>)"

definition load_model :: "seg_model \<Rightarrow> model_data \<Rightarrow> seg_model" where
  "load_model self md =
     self\<lparr>model := Some (md_model md), feature_columns := md_feature_columns md,
          target_column := md_target_column md, last_trained := md_last_trained md,
          model_params := md_model_params md\<rparr>"

section \<open>Recommendation engine (models/recommendation.py)\<close>

record rec_profile =
  customer_id :: string
  transaction_count :: nat
  days_since_last_visit :: int
  total_spend :: real
  average_transaction :: real
  total_points :: real
  average_points :: real
  unique_banners :: nat
  average_basket_size :: real

text \<open>
  \<^verbatim>\<open>RecommendationEngine.preprocess_data\<close>. The aggregation of a group calls
  \<^verbatim>\<open>datetime.now()\<close>; \<open>clock k\<close> is the \<open>k\<close>-th reading of the clock since the call
  of \<^verbatim>\<open>generate_offers\<close> began, one reading for each group here.
\<close>

definition rec_preprocess_data :: "(nat \<Rightarrow> int) \<Rightarrow> frame \<Rightarrow> exc + rec_profile list" where
  "rec_preprocess_data clock data =
     (if missing_cols [''customer_id'', ''transaction_timestamp'', ''total_amount'',
                       ''banner'', ''points_earned'', ''items'', ''segment''] data \<noteq> []
      then Inl FeatureError
      else Inr (map (\<lambda>(k, c).
             (let x = group_of (rows data) c
              in \<lparr>customer_id = c,
                  transaction_count = length x,
                  days_since_last_visit =
                    days (clock k - Max (set (map transaction_timestamp x))),
                  total_spend = sum_list (map total_amount x),
                  average_transaction = mean (map total_amount x),
                  total_points = sum_list (map points_earned x),
                  average_points = mean (map points_earned x),
                  unique_banners = length (remdups (map banner x)),
                  average_basket_size = mean (map (\<lambda>t. real (length (items t))) x)\<rparr>))
             (enumerate 0 (group_keys (rows data)))))"

text \<open>
  sklearn's \<^verbatim>\<open>MinMaxScaler().fit_transform\<close> on a frame of one column:
  \<open>ValueError\<close> without samples; \<open>scale_ = 1 / data_range\<close> with a zero range
  replaced by 1, \<open>min_ = 0 - data_min * scale_\<close>, and the result \<open>X * scale_ + min_\<close>,
  computed with the operations \<open>ops\<close>. The result is a 2-D array with one row of one
  number for each sample.
\<close>

definition MinMaxScaler_fit_transform :: "float_ops \<Rightarrow> real list \<Rightarrow> exc + real list list" where
  "MinMaxScaler_fit_transform ops X =
     (if X = [] then Inl ValueError
      else
        (let data_min = Min (set X);
             data_range = f_sub ops (Max (set X)) data_min;
             scale = f_div ops 1 (if data_range = 0 then 1 else data_range);
             min_shift = f_sub ops 0 (f_mul ops data_min scale)
         in Inr (map (\<lambda>x. [f_add ops (f_mul ops x scale) min_shift]) X)))"

text \<open>
  The frame \<open>features\<close> that \<^verbatim>\<open>engineer_features\<close> builds, by its columns.
  \<open>fr_index\<close> is the length of its index: \<^verbatim>\<open>pd.DataFrame()\<close> has no column and an
  index of length 0.
\<close>

record feature_frame =
  fr_index :: nat
  fr_cols :: "(string \<times> fval list) list"

definition empty_frame :: feature_frame where
  "empty_frame = \<lparr>fr_index = 0, fr_cols = []\<rparr>"

definition put_col :: "string \<Rightarrow> fval list \<Rightarrow> (string \<times> fval list) list \<Rightarrow> (string \<times> fval list) list" where
  "put_col key col cols =
     (if key \<in> set (map fst cols)
      then map (\<lambda>(n, c). if n = key then (n, col) else (n, c)) cols
      else cols @ [(key, col)])"

text \<open>
  \<^verbatim>\<open>df[key] = value\<close> for a 2-D array. On a frame whose index has length 0 pandas
  first makes a Series of a non-empty value to take its index from; a 2-D array is not
  one-dimensional, and the assignment raises \<open>ValueError\<close> ("Cannot set a frame with
  no defined index and a value that cannot be converted to a Series"). On a frame with
  an index the array must have its length and one column.
\<close>

definition setitem_2d :: "feature_frame \<Rightarrow> string \<Rightarrow> real list list \<Rightarrow> exc + feature_frame" where
  "setitem_2d df key v =
     (if fr_index df = 0 \<and> v \<noteq> [] then Inl ValueError
      else if length v \<noteq> fr_index df then Inl ValueError
      else if list_ex (\<lambda>row. length row \<noteq> 1) v then Inl ValueError
      else Inr (df\<lparr>fr_cols := put_col key (map (\<lambda>row. Fin (hd row)) v) (fr_cols df)\<rparr>))"

text \<open>
  \<^verbatim>\<open>df[key] = series\<close> for a Series over the positions \<open>0, 1, \<dots>\<close>: a frame
  without index takes the index of a non-empty Series (columns it has are filled with
  NaN); otherwise the Series is aligned with the index of the frame, NaN where it has no
  value.
\<close>

definition setitem_series :: "feature_frame \<Rightarrow> string \<Rightarrow> fval list \<Rightarrow> feature_frame" where
  "setitem_series df key s =
     (if fr_index df = 0 \<and> s \<noteq> []
      then \<lparr>fr_index = length s,
            fr_cols = put_col key s (map (\<lambda>(n, c). (n, replicate (length s) NaN)) (fr_cols df))\<rparr>
      else df\<lparr>fr_cols :=
             put_col key (map (\<lambda>i. if i < length s then s ! i else NaN) [0..<fr_index df])
               (fr_cols df)\<rparr>)"

text \<open>
  One statement \<^verbatim>\<open>features[key] = self.scaler.fit_transform(data[[column]])\<close>.
\<close>

definition scaled_column ::
  "float_ops \<Rightarrow> feature_frame \<Rightarrow> string \<Rightarrow> real list \<Rightarrow> exc + feature_frame" where
  "scaled_column ops df key X =
     (case MinMaxScaler_fit_transform ops X of
        Inl e \<Rightarrow> Inl e
      | Inr v \<Rightarrow> setitem_2d df key v)"

text \<open>The product of two columns of floats; both factors come from the scaler.\<close>

fun fval_times :: "float_ops \<Rightarrow> fval \<Rightarrow> fval \<Rightarrow> fval" where
  "fval_times ops (Fin x) (Fin y) = Fin (f_mul ops x y)"
| "fval_times ops a b = NaN"

text \<open>
  \<^verbatim>\<open>RecommendationEngine.engineer_features\<close>, statement by statement, starting from
  \<^verbatim>\<open>features = pd.DataFrame()\<close>: five columns are assigned from the scaler, two are
  quotients of columns of \<open>data\<close>, the last is the product of two columns of
  \<open>features\<close>. Every exception becomes \<open>FeatureError\<close>.
\<close>

definition rec_engineer_features :: "float_ops \<Rightarrow> rec_profile list \<Rightarrow> exc + feature_frame" where
  "rec_engineer_features ops data =
     (case scaled_column ops empty_frame ''total_spend'' (map rec_profile.total_spend data) of
        Inl e \<Rightarrow> Inl FeatureError
      | Inr f1 \<Rightarrow>
     (let f2 = setitem_series f1 ''visit_frequency''
                 (map (\<lambda>p. fdiv (real (transaction_count p))
                                (real_of_int (rec_profile.days_since_last_visit p + 1))) data)
      in
     (case scaled_column ops f2 ''points_balance'' (map total_points data) of
        Inl e \<Rightarrow> Inl FeatureError
      | Inr f3 \<Rightarrow>
     (let f4 = setitem_series f3 ''points_redemption_rate''
                 (map (\<lambda>p. fdiv (average_points p) (average_transaction p + 1)) data)
      in
     (case scaled_column ops f4 ''cross_banner_shopping''
             (map (\<lambda>p. real (unique_banners p)) data) of
        Inl e \<Rightarrow> Inl FeatureError
      | Inr f5 \<Rightarrow>
     (case scaled_column ops f5 ''basket_size'' (map average_basket_size data) of
        Inl e \<Rightarrow> Inl FeatureError
      | Inr f6 \<Rightarrow>
     (case scaled_column ops f6 ''days_since_last_visit''
             (map (\<lambda>p. real_of_int (rec_profile.days_since_last_visit p)) data) of
        Inl e \<Rightarrow> Inl FeatureError
      | Inr f7 \<Rightarrow>
     (case (map_of (fr_cols f7) ''cross_banner_shopping'', map_of (fr_cols f7) ''basket_size'') of
        (Some cross, Some basket) \<Rightarrow>
          Inr (setitem_series f7 ''category_diversity''
                 (map (\<lambda>(a, b). fval_times ops a b) (zip cross basket)))
      | _ \<Rightarrow> Inl FeatureError))))))))"

text \<open>
  A row \<^verbatim>\<open>features.loc[name]\<close> of the feature frame, read by the rules under the
  eight column names, and \<open>loc\<close> itself: \<open>KeyError\<close> for a position beyond the
  index. A frame that \<^verbatim>\<open>engineer_features\<close> returns has the eight columns; a cell
  of a column that is not there reads as NaN here.
\<close>

record rec_features =
  total_spend :: fval
  visit_frequency :: fval
  points_balance :: fval
  points_redemption_rate :: fval
  cross_banner_shopping :: fval
  basket_size :: fval
  days_since_last_visit :: fval
  category_diversity :: fval

definition cell :: "feature_frame \<Rightarrow> string \<Rightarrow> nat \<Rightarrow> fval" where
  "cell df key i =
     (case map_of (fr_cols df) key of
        None \<Rightarrow> NaN
      | Some col \<Rightarrow> if i < length col then col ! i else NaN)"

definition loc :: "feature_frame \<Rightarrow> nat \<Rightarrow> exc + rec_features" where
  "loc df name =
     (if \<not> name < fr_index df then Inl KeyError
      else Inr \<lparr>total_spend = cell df ''total_spend'' name,
                visit_frequency = cell df ''visit_frequency'' name,
                points_balance = cell df ''points_balance'' name,
                points_redemption_rate = cell df ''points_redemption_rate'' name,
                cross_banner_shopping = cell df ''cross_banner_shopping'' name,
                basket_size = cell df ''basket_size'' name,
                days_since_last_visit = cell df ''days_since_last_visit'' name,
                category_diversity = cell df ''category_diversity'' name\<rparr>)"

text \<open>
  The frame of segment assignments given to \<^verbatim>\<open>generate_offers\<close>, and a row of the
  merged frame \<open>customer_profiles\<close>: the nine columns of the aggregation and the two of
  the segments. \<open>banner\<close> is the entry \<^verbatim>\<open>customer['banner']\<close> of the row: the merged
  frame has no such column, so it is \<open>None\<close> in every row that \<^verbatim>\<open>generate_offers\<close>
  builds; a row made by hand can carry one.
\<close>

record seg_frame =
  seg_columns :: "string list"
  seg_rows :: "seg_row list"

record customer_row =
  customer_id :: string
  transaction_count :: nat
  days_since_last_visit :: int
  total_spend :: real
  average_transaction :: real
  total_points :: real
  average_points :: real
  unique_banners :: nat
  average_basket_size :: real
  segment :: nat
  segment_description :: "string option"
  banner :: "string option"

text \<open>
  \<^verbatim>\<open>pd.merge(processed_data, segment_data[[...]], on='customer_id')\<close>: an inner join,
  in the order of the left frame.
\<close>

definition merge :: "rec_profile list \<Rightarrow> seg_row list \<Rightarrow> customer_row list" where
  "merge processed_data segment_data =
     concat (map (\<lambda>p. map (\<lambda>s.
         \<lparr>customer_id = rec_profile.customer_id p,
          transaction_count = rec_profile.transaction_count p,
          days_since_last_visit = rec_profile.days_since_last_visit p,
          total_spend = rec_profile.total_spend p,
          average_transaction = rec_profile.average_transaction p,
          total_points = rec_profile.total_points p,
          average_points = rec_profile.average_points p,
          unique_banners = rec_profile.unique_banners p,
          average_basket_size = rec_profile.average_basket_size p,
          segment = seg_row.segment s,
          segment_description = seg_row.segment_description s,
          banner = None\<rparr>)
        (filter (\<lambda>s. seg_row.customer_id s = rec_profile.customer_id p) segment_data))
      processed_data)"

datatype offer_type =
  POINTS_MULTIPLIER | POINTS_BONUS | CROSS_BANNER | CATEGORY_DISCOUNT | THRESHOLD_BONUS

record offer =
  offer_type :: offer_type
  offer_value :: real
  conditions :: "(string \<times> real) list"
  start_date :: int
  end_date :: int
  target_banners :: "string list option"
  target_categories :: "string list option"

text \<open>\<^verbatim>\<open>needle in hay\<close> on strings.\<close>

fun starts_with :: "string \<Rightarrow> string \<Rightarrow> bool" where
  "starts_with hay [] = True"
| "starts_with [] (n # ns) = False"
| "starts_with (h # hs) (n # ns) = (h = n \<and> starts_with hs ns)"

fun str_in :: "string \<Rightarrow> string \<Rightarrow> bool" where
  "str_in needle [] = (needle = [])"
| "str_in needle (h # hs) = (starts_with (h # hs) needle \<or> str_in needle hs)"

definition get_recommended_banners :: "customer_row \<Rightarrow> exc + string list" where
  "get_recommended_banners customer =
     (case banner customer of
        None \<Rightarrow> Inl KeyError
      | Some visited \<Rightarrow>
          Inr (filter (\<lambda>b. \<not> str_in (lower b) (lower visited))
                 [''Sobeys'', ''Safeway'', ''IGA'', ''Foodland'', ''FreshCo'']))"

definition get_recommended_categories :: "customer_row \<Rightarrow> string list" where
  "get_recommended_categories customer = [''Produce'', ''Dairy'', ''Meat'', ''Bakery'', ''Pantry'']"

text \<open>
  The five rules of \<^verbatim>\<open>_generate_customer_offers\<close>, each an \<open>if\<close> statement that
  appends at most one offer. A rule that fires reads the clock twice (\<open>start_date\<close>,
  then \<open>end_date\<close>) before it evaluates the remaining arguments; the result carries the
  number of readings made so far.
\<close>

type_synonym rule =
  "(nat \<Rightarrow> int) \<Rightarrow> nat \<Rightarrow> customer_row \<Rightarrow> rec_features \<Rightarrow> (exc + offer list) \<times> nat"

definition points_multiplier_rule :: rule where
  "points_multiplier_rule clock k customer features =
     (if fgt (points_redemption_rate features) 0.7
      then (Inr [\<lparr>offer_type = POINTS_MULTIPLIER, offer_value = 2.0,
                  conditions = [(''min_spend'', 50.0)],
                  start_date = clock k, end_date = clock (k + 1) + 30 * day,
                  target_banners = None, target_categories = None\<rparr>], k + 2)
      else (Inr [], k))"

definition cross_banner_rule :: rule where
  "cross_banner_rule clock k customer features =
     (if flt (cross_banner_shopping features) 0.3
      then (case get_recommended_banners customer of
              Inl e \<Rightarrow> (Inl e, k + 2)
            | Inr banners \<Rightarrow>
                (Inr [\<lparr>offer_type = CROSS_BANNER, offer_value = 500.0,
                       conditions = [(''min_spend'', 75.0)],
                       start_date = clock k, end_date = clock (k + 1) + 30 * day,
                       target_banners = Some banners, target_categories = None\<rparr>], k + 2))
      else (Inr [], k))"

definition category_discount_rule :: rule where
  "category_discount_rule clock k customer features =
     (if flt (category_diversity features) 0.5
      then (Inr [\<lparr>offer_type = CATEGORY_DISCOUNT, offer_value = 0.15,
                  conditions = [(''min_spend'', 25.0)],
                  start_date = clock k, end_date = clock (k + 1) + 14 * day,
                  target_banners = None,
                  target_categories = Some (get_recommended_categories customer)\<rparr>], k + 2)
      else (Inr [], k))"

definition threshold_bonus_rule :: rule where
  "threshold_bonus_rule clock k customer features =
     (if fgt (rec_features.total_spend features) 0.7
      then (Inr [\<lparr>offer_type = THRESHOLD_BONUS, offer_value = 1000.0,
                  conditions = [(''spend_threshold'', 150.0)],
                  start_date = clock k, end_date = clock (k + 1) + 30 * day,
                  target_banners = None, target_categories = None\<rparr>], k + 2)
      else (Inr [], k))"

definition points_bonus_rule :: rule where
  "points_bonus_rule clock k customer features =
     (if fgt (rec_features.days_since_last_visit features) 0.8
      then (Inr [\<lparr>offer_type = POINTS_BONUS, offer_value = 250.0,
                  conditions = [(''min_spend'', 25.0)],
                  start_date = clock k, end_date = clock (k + 1) + 7 * day,
                  target_banners = None, target_categories = None\<rparr>], k + 2)
      else (Inr [], k))"

fun run_rules ::
  "rule list \<Rightarrow> (nat \<Rightarrow> int) \<Rightarrow> nat \<Rightarrow> customer_row \<Rightarrow> rec_features \<Rightarrow> offer list
   \<Rightarrow> (exc + offer list) \<times> nat" where
  "run_rules [] clock k customer features offers = (Inr offers, k)"
| "run_rules (r # rs) clock k customer features offers =
     (case r clock k customer features of
        (Inl e, k') \<Rightarrow> (Inl e, k')
      | (Inr new, k') \<Rightarrow> run_rules rs clock k' customer features (offers @ new))"

definition candidate_offers ::
  "(nat \<Rightarrow> int) \<Rightarrow> nat \<Rightarrow> customer_row \<Rightarrow> rec_features \<Rightarrow> (exc + offer list) \<times> nat" where
  "candidate_offers clock k customer features =
     run_rules [points_multiplier_rule, cross_banner_rule, category_discount_rule,
                threshold_bonus_rule, points_bonus_rule] clock k customer features []"

text \<open>
  \<^verbatim>\<open>_calculate_offer_value\<close>, with the products and the quotient computed by
  \<open>ops\<close>. A lookup of \<^verbatim>\<open>conditions['spend_threshold']\<close> that finds no key raises
  \<open>KeyError\<close> and a zero threshold \<open>ZeroDivisionError\<close>; the offers of the five
  rules have the threshold 150.
\<close>

definition segment_multipliers :: "(string \<times> real) list" where
  "segment_multipliers =
     [(''High Spender'', 1.2), (''Frequent Shopper'', 1.1), (''Points Saver'', 1.3),
      (''Multi-Banner'', 1.15)]"

definition segment_multiplier :: "customer_row \<Rightarrow> real" where
  "segment_multiplier customer =
     (case segment_description customer of
        None \<Rightarrow> 1.0
      | Some d \<Rightarrow> (case map_of segment_multipliers d of None \<Rightarrow> 1.0 | Some m \<Rightarrow> m))"

definition base_value :: "float_ops \<Rightarrow> offer \<Rightarrow> customer_row \<Rightarrow> exc + real" where
  "base_value ops offer customer =
     (if offer_type offer = POINTS_MULTIPLIER
      then Inr (f_mul ops (offer_value offer) (average_points customer))
      else if offer_type offer = THRESHOLD_BONUS
      then (case map_of (conditions offer) ''spend_threshold'' of
              None \<Rightarrow> Inl KeyError
            | Some t \<Rightarrow>
                if t = 0 then Inl ZeroDivisionError
                else Inr (f_mul ops (offer_value offer)
                            (f_div ops (average_transaction customer) t)))
      else Inr (offer_value offer))"

definition calculate_offer_value :: "float_ops \<Rightarrow> offer \<Rightarrow> customer_row \<Rightarrow> exc + real" where
  "calculate_offer_value ops offer customer =
     (case base_value ops offer customer of
        Inl e \<Rightarrow> Inl e
      | Inr b \<Rightarrow> Inr (f_mul ops b (segment_multiplier customer)))"

text \<open>
  \<^verbatim>\<open>sorted(xs, key=f, reverse=True)\<close>: the keys are computed first, one for each
  element in order; the list is reversed, sorted by a stable ascending sort and reversed
  again, which is how CPython keeps equal keys in their original order.
\<close>

fun keys_of :: "('a \<Rightarrow> exc + real) \<Rightarrow> 'a list \<Rightarrow> exc + real list" where
  "keys_of f [] = Inr []"
| "keys_of f (x # xs) =
     (case f x of
        Inl e \<Rightarrow> Inl e
      | Inr k \<Rightarrow> (case keys_of f xs of Inl e \<Rightarrow> Inl e | Inr ks \<Rightarrow> Inr (k # ks)))"

definition sort_reverse :: "(real \<times> 'a) list \<Rightarrow> (real \<times> 'a) list" where
  "sort_reverse kxs = rev (sort_key fst (rev kxs))"

definition sorted_reverse :: "('a \<Rightarrow> exc + real) \<Rightarrow> 'a list \<Rightarrow> exc + 'a list" where
  "sorted_reverse f xs =
     (case keys_of f xs of
        Inl e \<Rightarrow> Inl e
      | Inr ks \<Rightarrow> Inr (map snd (sort_reverse (zip ks xs))))"

text \<open>The slice \<^verbatim>\<open>xs[:n]\<close>; a negative \<open>n\<close> counts from the end.\<close>

definition slice_to :: "int \<Rightarrow> 'a list \<Rightarrow> 'a list" where
  "slice_to n xs = (if 0 \<le> n then take (nat n) xs else take (nat (int (length xs) + n)) xs)"

definition generate_customer_offers ::
  "float_ops \<Rightarrow> (nat \<Rightarrow> int) \<Rightarrow> nat \<Rightarrow> customer_row \<Rightarrow> rec_features \<Rightarrow> int
   \<Rightarrow> (exc + offer list) \<times> nat" where
  "generate_customer_offers ops clock k customer features n_offers =
     (case candidate_offers clock k customer features of
        (Inl e, k') \<Rightarrow> (Inl e, k')
      | (Inr offers, k') \<Rightarrow>
          (case sorted_reverse (\<lambda>x. calculate_offer_value ops x customer) offers of
             Inl e \<Rightarrow> (Inl e, k')
           | Inr ranked \<Rightarrow> (Inr (slice_to n_offers ranked), k')))"

text \<open>
  The loop \<^verbatim>\<open>for _, customer in customer_profiles.iterrows()\<close>. \<open>name\<close> is the
  position of the row in the merged frame, and the feature row is
  \<^verbatim>\<open>features.loc[customer.name]\<close>.
\<close>

fun offers_loop ::
  "float_ops \<Rightarrow> (nat \<Rightarrow> int) \<Rightarrow> nat \<Rightarrow> feature_frame \<Rightarrow> int \<Rightarrow> (nat \<times> customer_row) list
   \<Rightarrow> (string \<rightharpoonup> offer list) \<Rightarrow> exc + (string \<rightharpoonup> offer list)" where
  "offers_loop ops clock k features n_offers [] offers = Inr offers"
| "offers_loop ops clock k features n_offers ((name, customer) # rest) offers =
     (case loc features name of
        Inl e \<Rightarrow> Inl e
      | Inr row \<Rightarrow>
          (case generate_customer_offers ops clock k customer row n_offers of
             (Inl e, k') \<Rightarrow> Inl e
           | (Inr customer_offers, k') \<Rightarrow>
               offers_loop ops clock k' features n_offers rest
                 (offers(customer_id customer \<mapsto> customer_offers))))"

definition generate_offers_body ::
  "float_ops \<Rightarrow> (nat \<Rightarrow> int) \<Rightarrow> frame \<Rightarrow> seg_frame \<Rightarrow> int
   \<Rightarrow> exc + (string \<rightharpoonup> offer list)" where
  "generate_offers_body ops clock customer_data segment_data n_offers =
     (case rec_preprocess_data clock customer_data of
        Inl e \<Rightarrow> Inl e
      | Inr processed_data \<Rightarrow>
          (case rec_engineer_features ops processed_data of
             Inl e \<Rightarrow> Inl e
           | Inr features \<Rightarrow>
               if filter (\<lambda>c. c \<notin> set (seg_columns segment_data))
                    [''customer_id'', ''segment'', ''segment_description''] \<noteq> []
               then Inl KeyError
               else offers_loop ops clock (length processed_data) features n_offers
                      (enumerate 0 (merge processed_data (seg_rows segment_data)))
                      Map.empty))"

text \<open>
  \<^verbatim>\<open>RecommendationEngine.generate_offers\<close>: every exception of the body becomes
  \<open>ModelError\<close>.
\<close>

definition generate_offers ::
  "float_ops \<Rightarrow> (nat \<Rightarrow> int) \<Rightarrow> frame \<Rightarrow> seg_frame \<Rightarrow> int
   \<Rightarrow> exc + (string \<rightharpoonup> offer list)" where
  "generate_offers ops clock customer_data segment_data n_offers =
     (case generate_offers_body ops clock customer_data segment_data n_offers of
        Inl e \<Rightarrow> Inl ModelError
      | Inr offers \<Rightarrow> Inr offers)"

section \<open>The ranking score in the words of the specification\<close>

text \<open>
  The final score as the specification words it, to compare with
  \<open>calculate_offer_value\<close>: the raw value, scaled by the average points earned for a
  points multiplier and by the average transaction value divided by the offer's spend
  threshold for a threshold bonus, otherwise unmodified; then multiplied by the segment
  multiplier found by exact match on the description. The products and the quotient
  are those of \<open>ops\<close>.
\<close>

definition spec_segment_multiplier :: "string option \<Rightarrow> real" where
  "spec_segment_multiplier description =
     (if description = Some ''High Spender'' then 1.2
      else if description = Some ''Frequent Shopper'' then 1.1
      else if description = Some ''Points Saver'' then 1.3
      else if description = Some ''Multi-Banner'' then 1.15
      else 1.0)"

definition spend_threshold :: "offer \<Rightarrow> real" where
  "spend_threshold x =
     (case map_of (conditions x) ''spend_threshold'' of None \<Rightarrow> 0 | Some t \<Rightarrow> t)"

definition spec_score :: "float_ops \<Rightarrow> offer \<Rightarrow> customer_row \<Rightarrow> real" where
  "spec_score ops x customer =
     f_mul ops
       (if offer_type x = POINTS_MULTIPLIER
        then f_mul ops (offer_value x) (average_points customer)
        else if offer_type x = THRESHOLD_BONUS
        then f_mul ops (offer_value x) (f_div ops (average_transaction customer) (spend_threshold x))
        else offer_value x)
       (spec_segment_multiplier (segment_description customer))"

section \<open>Example inputs\<close>

text \<open>
  Frames for the concrete cases below: one customer with two purchases a day apart, and
  two frames with customers \<open>A\<close> and \<open>B\<close>. The two functions stand in for sklearn's
  \<open>KMeans\<close>: all centers at the origin, every row assigned to segment 0.
\<close>

definition one_customer :: frame where
  "one_customer =
     \<lparr>columns = all_columns, rows = [purchase ''A'' 0 10, purchase ''A'' day 30]\<rparr>"

definition batch_A :: frame where
  "batch_A =
     \<lparr>columns = all_columns, rows = [purchase ''A'' 0 10, purchase ''B'' (30 * day) 30]\<rparr>"

definition batch_B :: frame where
  "batch_B =
     \<lparr>columns = all_columns, rows = [purchase ''A'' 0 100, purchase ''B'' (60 * day) 300]\<rparr>"

definition origin_KMeans_fit :: "nat \<Rightarrow> fval list list \<Rightarrow> exc + real list list" where
  "origin_KMeans_fit k cols = Inr (map (\<lambda>i. [0, 0, 0, 0, 0, 0, 0, 0]) [0..<k])"

definition zero_KMeans_predict :: "real list list \<Rightarrow> fval list list \<Rightarrow> exc + nat list" where
  "zero_KMeans_predict centers cols = Inr (map (\<lambda>v. 0) (hd cols))"

definition trained_A :: seg_model where
  "trained_A = snd (train origin_KMeans_fit 0 (CustomerSegmentation 1) batch_A)"

text \<open>
  For the recommendation engine: a clock that stands still at \<open>t\<close>, a customer with
  five purchases at time 0, and segment frames that hold that customer or another one.
\<close>

definition clock_at :: "int \<Rightarrow> nat \<Rightarrow> int" where
  "clock_at t k = t"

definition five_purchases :: frame where
  "five_purchases =
     \<lparr>columns = all_columns,
      rows = [purchase ''A'' 0 1, purchase ''A'' 0 1, purchase ''A'' 0 1, purchase ''A'' 0 1,
              purchase ''A'' 0 1]\<rparr>"

definition segments_of :: "string \<Rightarrow> seg_frame" where
  "segments_of c =
     \<lparr>seg_columns = [''customer_id'', ''segment'', ''segment_description''],
      seg_rows = [\<lparr>seg_row.customer_id = c, segment = 0,
                   segment_description = Some ''Average''\<rparr>]\<rparr>"



text \<open>
  A customer row and a feature row for which two rules fire with equal scores: the points
  multiplier (2 times 125 average points) and the points bonus (250), both times 1.
\<close>

definition tie_customer :: customer_row where
  "tie_customer =
     \<lparr>customer_row.customer_id = ''A'', transaction_count = 5, days_since_last_visit = 0,
      total_spend = 5, average_transaction = 1, total_points = 625, average_points = 125,
      unique_banners = 1, average_basket_size = 1, segment = 0,
      segment_description = Some ''Average'', banner = None\<rparr>"

definition tie_features :: rec_features where
  "tie_features =
     \<lparr>rec_features.total_spend = Fin 0, visit_frequency = Fin 5, points_balance = Fin 0,
      points_redemption_rate = Fin 1, cross_banner_shopping = Fin 1, basket_size = Fin 1,
      days_since_last_visit = Fin 1, category_diversity = Fin 1\<rparr>"

section \<open>Properties of the transformers\<close>

lemma isinstance_Exception: "isinstance e Exception"
  by (cases e) (simp_all add: isinstance_def)

lemma validate_record_pydantic:
  "schema r = Inl PydanticValidationError \<Longrightarrow>
   validate_record schema errs r = (Inl PydanticValidationError, errs)"
  by (simp add: validate_record_def isinstance_def)

lemma validate_record_ok:
  "schema r = Inr v \<Longrightarrow> validate_record schema errs r = (Inr (Some v), errs)"
  by (simp add: validate_record_def)

lemma validate_loop_append_bad:
  "\<lbrakk>list_all (\<lambda>r. schema r = Inr r) rs; schema b = Inl PydanticValidationError\<rbrakk>
   \<Longrightarrow> validate_loop schema errs acc (rs @ b # rest) = (Inl PydanticValidationError, errs)"
proof (induction rs arbitrary: acc)
  case Nil
  then show ?case by (simp add: validate_record_pydantic)
next
  case (Cons r rs)
  then show ?case by (simp add: validate_record_ok)
qed

lemma RetailTransaction_good:
  "RetailTransaction (good_record\<lparr>retail_row.points_earned := p, retail_row.banner := b\<rparr>) =
   Inr (good_record\<lparr>retail_row.points_earned := p, retail_row.banner := b\<rparr>)"
  by (simp add: RetailTransaction_def validate_items_def good_record_def)

lemma RetailTransaction_bad:
  "RetailTransaction (bad_record\<lparr>retail_row.points_earned := p, retail_row.banner := b\<rparr>) =
   Inl PydanticValidationError"
  by (simp add: RetailTransaction_def bad_record_def good_record_def)

text \<open>
  C1. A batch of 49 valid records followed by one record with a negative
  \<open>total_amount\<close>: the schema error of the one record is not caught by
  \<open>validate_record\<close>, so \<open>transform\<close> raises \<open>TransformationError\<close>, returns no
  record and leaves the error report empty.
\<close>

theorem retail_transform_one_bad_record:
  "retail_transform (replicate 49 good_record @ [bad_record]) = (Inl TransformationError, [])"
proof -
  let ?g = "good_record\<lparr>retail_row.points_earned := Some 5, retail_row.banner := lower ''Sobeys''\<rparr>"
  let ?b = "bad_record\<lparr>retail_row.points_earned := Some 5, retail_row.banner := lower ''Sobeys''\<rparr>"
  have pts: "fillna 0 (map retail_row.points_earned (replicate 49 good_record @ [bad_record])) =
             replicate 49 (Some 5) @ [Some 5]"
    by (simp add: fillna_def good_record_def bad_record_def)
  have "validate_loop RetailTransaction [] [] (replicate 49 ?g @ ?b # []) =
        (Inl PydanticValidationError, [])"
    by (rule validate_loop_append_bad)
       (simp_all add: list_all_iff RetailTransaction_good RetailTransaction_bad)
  moreover have "retail_row.banner good_record = ''Sobeys''" "retail_row.banner bad_record = ''Sobeys''"
    by (simp_all add: good_record_def bad_record_def)
  ultimately show ?thesis
    unfolding retail_transform_def pts by (simp add: zip_replicate Let_def)
qed

lemma SceneTransaction_earn: "SceneTransaction earn_record = Inr earn_record"
  by (simp add: SceneTransaction_def earn_record_def lower_def lower_char_def)

text \<open>
  C10, as the code has it. For every input frame, if the installed pandas rejects
  \<open>fillna(None)\<close> on the \<open>source_transaction_id\<close> column, then
  \<open>SceneTransformer.transform\<close> raises \<open>TransformationError\<close> and returns no
  record: the exception is raised before the validation loop and the handler re-raises
  it as \<open>TransformationError\<close>. So it is for every frame under the behaviour of
  pandas up to version 2.
\<close>

theorem scene_transform_raises_if_fillna_rejected:
  "(fillna_None (map source_transaction_id data) = Inl e \<longrightarrow>
      scene_transform fillna_None data = (Inl TransformationError, [])) \<and>
   scene_transform fillna_None_rejected data = (Inl TransformationError, [])"
  by (simp add: scene_transform_def fillna_None_rejected_def Let_def comp_def)

theorem scene_transform_rejected_witness:
  "fillna_None_rejected (map source_transaction_id [earn_record]) = Inl ValueError \<and>
   scene_transform fillna_None_rejected [earn_record] = (Inl TransformationError, [])"
  using scene_transform_raises_if_fillna_rejected
    [of fillna_None_rejected "[earn_record]" ValueError]
  by (simp add: fillna_None_rejected_def)

text \<open>
  C10 as stated fails where pandas accepts the call: under the behaviour of pandas 3 a
  frame of one valid record is returned, with an empty error report.
\<close>

theorem scene_transform_accepted_counterexample:
  "scene_transform fillna_None_accepted [earn_record] = (Inr [earn_record], [])"
  by (simp add: scene_transform_def fillna_None_accepted_def Let_def validate_record_def
      SceneTransaction_def earn_record_def lower_def lower_char_def)

section \<open>Properties of the segmentation model\<close>

lemmas frame_eval = all_columns_def missing_cols_def purchase_def group_keys_def group_of_def
  days_def day_def mean_def

lemmas seg_eval = seg_engineer_features_def seg_features_def date_range_def
  StandardScaler_fit_def has_inf_def fdiv_def days_def day_def col_mean_def col_var_def
  col_scale_def finite_vals_def mean_def StandardScaler_transform_def

lemma seg_engineer_model: "model (snd (seg_engineer_features self d)) = model self"
  by (simp add: seg_engineer_features_def Let_def split: sum.splits)

lemma seg_engineer_n_clusters:
  "n_clusters (snd (seg_engineer_features self d)) = n_clusters self"
  by (simp add: seg_engineer_features_def Let_def split: sum.splits)

lemma StandardScaler_transform_length:
  "StandardScaler_fit cols = Inr sc \<Longrightarrow> length (StandardScaler_transform sc cols) = length cols"
  by (auto simp: StandardScaler_fit_def StandardScaler_transform_def split: if_splits)

lemma seg_engineer_scaled:
  assumes "seg_engineer_features self d = (Inr features, self')"
  shows "\<exists>sc. StandardScaler_fit (map snd (seg_features d)) = Inr sc \<and> scaler self' = Some sc \<and>
           features = zip (map fst (seg_features d))
                          (StandardScaler_transform sc (map snd (seg_features d))) \<and>
           map snd features = StandardScaler_transform sc (map snd (seg_features d))"
proof -
  from assms obtain sc where sc: "StandardScaler_fit (map snd (seg_features d)) = Inr sc"
    and s: "scaler self' = Some sc"
    and f: "features = zip (map fst (seg_features d))
                           (StandardScaler_transform sc (map snd (seg_features d)))"
    by (auto simp: seg_engineer_features_def Let_def split: sum.splits)
  have "length (StandardScaler_transform sc (map snd (seg_features d))) =
        length (map fst (seg_features d))"
    using StandardScaler_transform_length [OF sc] by simp
  then have "map snd features = StandardScaler_transform sc (map snd (seg_features d))"
    unfolding f by (simp add: map_snd_zip)
  with sc s f show ?thesis by blast
qed

lemma pre_one_customer:
  "seg_preprocess_data one_customer =
   Inr [\<lparr>seg_profile.customer_id = ''A'', transaction_count = 2, last_transaction_date = day,
         days_since_last_visit = 0, total_spend = 40, average_transaction_value = 20,
         total_points = 20, average_points_earned = 10, unique_banners = 1,
         average_basket_size = 1\<rparr>]"
  by (simp add: seg_preprocess_data_def frame_eval one_customer_def)

lemma pre_batch_A:
  "seg_preprocess_data batch_A =
   Inr [\<lparr>seg_profile.customer_id = ''A'', transaction_count = 1, last_transaction_date = 0,
         days_since_last_visit = 30, total_spend = 10, average_transaction_value = 10,
         total_points = 10, average_points_earned = 10, unique_banners = 1,
         average_basket_size = 1\<rparr>,
        \<lparr>seg_profile.customer_id = ''B'', transaction_count = 1,
         last_transaction_date = 30 * day, days_since_last_visit = 0, total_spend = 30,
         average_transaction_value = 30, total_points = 10, average_points_earned = 10,
         unique_banners = 1, average_basket_size = 1\<rparr>]"
  by (simp add: seg_preprocess_data_def frame_eval batch_A_def)

lemma pre_batch_B:
  "seg_preprocess_data batch_B =
   Inr [\<lparr>seg_profile.customer_id = ''A'', transaction_count = 1, last_transaction_date = 0,
         days_since_last_visit = 60, total_spend = 100, average_transaction_value = 100,
         total_points = 10, average_points_earned = 10, unique_banners = 1,
         average_basket_size = 1\<rparr>,
        \<lparr>seg_profile.customer_id = ''B'', transaction_count = 1,
         last_transaction_date = 60 * day, days_since_last_visit = 0, total_spend = 300,
         average_transaction_value = 300, total_points = 10, average_points_earned = 10,
         unique_banners = 1, average_basket_size = 1\<rparr>]"
  by (simp add: seg_preprocess_data_def frame_eval batch_B_def)

lemma trained_A_model: "model trained_A = Some (Fitted [[0, 0, 0, 0, 0, 0, 0, 0]])"
  unfolding trained_A_def train_def pre_batch_A
  by (simp add: seg_eval origin_KMeans_fit_def CustomerSegmentation_def)

lemma trained_A_n_clusters: "n_clusters trained_A = 1"
  unfolding trained_A_def train_def pre_batch_A
  by (simp add: seg_eval origin_KMeans_fit_def CustomerSegmentation_def)

lemma trained_A_mean:
  "map_option sc_mean (scaler trained_A) =
   Some [Fin 20, Fin 1, Fin 10, Fin (2 / 3), Fin 1, Fin 1, Fin 15, Fin 1]"
  unfolding trained_A_def train_def pre_batch_A
  by (simp add: seg_eval origin_KMeans_fit_def CustomerSegmentation_def)

lemma predict_B_result:
  "fst (predict zero_KMeans_predict trained_A batch_B) =
   Inr [\<lparr>seg_row.customer_id = ''A'', segment = 0, segment_description = Some ''Average''\<rparr>,
        \<lparr>seg_row.customer_id = ''B'', segment = 0, segment_description = Some ''Average''\<rparr>]"
  unfolding predict_def predict_body_def pre_batch_B
  by (simp add: seg_eval trained_A_model trained_A_n_clusters zero_KMeans_predict_def
      get_segment_descriptions_def describe_center_def title_def upper_char_def lower_char_def
      is_alpha_def)

lemma predict_B_mean:
  "map_option sc_mean (scaler (snd (predict zero_KMeans_predict trained_A batch_B))) =
   Some [Fin 200, Fin (1 / 2), Fin 10, Fin (1 / 15), Fin 1, Fin 1, Fin 30, Fin 1]"
  unfolding predict_def predict_body_def pre_batch_B
  by (simp add: seg_eval trained_A_model trained_A_n_clusters zero_KMeans_predict_def
      get_segment_descriptions_def)

text \<open>
  C9. On an instance that has not been trained (\<^verbatim>\<open>self.model is None\<close>),
  \<open>predict\<close> raises \<open>NameError\<close> for every input frame and every behaviour of
  \<open>KMeans\<close>, and \<open>NameError\<close> is not an error of the \<open>ModelError\<close> family: there
  is no guard, the body fails at the latest on \<^verbatim>\<open>self.model.predict\<close>, and the
  handler names \<^verbatim>\<open>PredictionError\<close>, which the module does not import.
\<close>

theorem predict_untrained_raises_NameError:
  "model self = None \<Longrightarrow>
   fst (predict KMeans_predict self data) = Inl NameError \<and> \<not> isinstance NameError ModelError"
proof -
  assume u: "model self = None"
  have "\<exists>e. fst (predict_body KMeans_predict self data) = Inl e"
  proof (cases "seg_preprocess_data data")
    case (Inl e)
    then show ?thesis by (simp add: predict_body_def)
  next
    case (Inr processed)
    obtain r self1 where e: "seg_engineer_features self processed = (r, self1)"
      by (cases "seg_engineer_features self processed")
    then have "model self1 = None"
      using seg_engineer_model [of self processed] u by simp
    with Inr e show ?thesis
      by (cases r) (simp_all add: predict_body_def)
  qed
  then show ?thesis
    by (auto simp: predict_def isinstance_def split: prod.splits sum.splits)
qed

theorem predict_untrained_witness:
  "model (CustomerSegmentation 5) = None \<and>
   fst (predict zero_KMeans_predict (CustomerSegmentation 5) batch_A) = Inl NameError"
  using predict_untrained_raises_NameError [of "CustomerSegmentation 5" zero_KMeans_predict batch_A]
  by (simp add: CustomerSegmentation_def)

text \<open>
  C8. One customer with two purchases: every customer shares the last transaction date,
  \<open>date_range\<close> is zero, \<open>visit_frequency\<close> is an infinity, the scaler rejects the
  frame and \<open>engineer_features\<close> raises \<open>FeatureError\<close> (and \<open>train\<close>
  \<open>ModelError\<close>): the division is not guarded.
\<close>

theorem seg_engineer_features_same_date:
  "seg_preprocess_data one_customer =
     Inr [\<lparr>seg_profile.customer_id = ''A'', transaction_count = 2, last_transaction_date = day,
           days_since_last_visit = 0, total_spend = 40, average_transaction_value = 20,
           total_points = 20, average_points_earned = 10, unique_banners = 1,
           average_basket_size = 1\<rparr>] \<and>
   fst (seg_engineer_features (CustomerSegmentation 5)
     [\<lparr>seg_profile.customer_id = ''A'', transaction_count = 2, last_transaction_date = day,
       days_since_last_visit = 0, total_spend = 40, average_transaction_value = 20,
       total_points = 20, average_points_earned = 10, unique_banners = 1,
       average_basket_size = 1\<rparr>]) = Inl FeatureError \<and>
   fst (train origin_KMeans_fit 0 (CustomerSegmentation 5) one_customer) = Inl ModelError"
  unfolding train_def pre_one_customer by (simp add: seg_eval)

text \<open>
  C3, as the code has it. Every call of \<open>engineer_features\<close> that returns has fitted
  the scaler on the features of the frame it was given and hands on those features
  scaled with the parameters just fitted. So whenever \<open>predict\<close> returns, the scaler
  it leaves behind is the one fitted on the frame given to \<open>predict\<close>, and the
  segments are those that \<open>KMeans\<close> predicts for that frame scaled with its own
  parameters; whenever \<open>train\<close> returns, the centers are fitted to the training
  frame scaled with its own parameters. The state written by \<open>save_model\<close> does not
  depend on the scaler, and \<open>load_model\<close> leaves the scaler of the loading instance
  as it was.
\<close>

theorem scaler_refit_on_every_call:
  "(seg_engineer_features self processed = (Inr features, self1) \<longrightarrow>
      (\<exists>sc. StandardScaler_fit (map snd (seg_features processed)) = Inr sc \<and>
         scaler self1 = Some sc \<and>
         features = zip (map fst (seg_features processed))
                        (StandardScaler_transform sc (map snd (seg_features processed))))) \<and>
   (predict KMeans_predict self data = (Inr results, self') \<longrightarrow>
      (\<exists>processed sc centers segments.
         seg_preprocess_data data = Inr processed \<and>
         StandardScaler_fit (map snd (seg_features processed)) = Inr sc \<and>
         scaler self' = Some sc \<and>
         model self = Some (Fitted centers) \<and>
         KMeans_predict centers
           (StandardScaler_transform sc (map snd (seg_features processed))) = Inr segments \<and>
         map seg_row.segment results = segments)) \<and>
   (train KMeans_fit now self data = (Inr (), self') \<longrightarrow>
      (\<exists>processed sc centers.
         seg_preprocess_data data = Inr processed \<and>
         StandardScaler_fit (map snd (seg_features processed)) = Inr sc \<and>
         scaler self' = Some sc \<and>
         KMeans_fit (n_clusters self)
           (StandardScaler_transform sc (map snd (seg_features processed))) = Inr centers \<and>
         model self' = Some (Fitted centers))) \<and>
   save_model (self\<lparr>scaler := s\<rparr>) = save_model self \<and>
   scaler (load_model self md) = scaler self"
proof (intro conjI impI)
  assume "seg_engineer_features self processed = (Inr features, self1)"
  then show "\<exists>sc. StandardScaler_fit (map snd (seg_features processed)) = Inr sc \<and>
         scaler self1 = Some sc \<and>
         features = zip (map fst (seg_features processed))
                        (StandardScaler_transform sc (map snd (seg_features processed)))"
    using seg_engineer_scaled by blast
next
  assume p: "predict KMeans_predict self data = (Inr results, self')"
  then have b: "predict_body KMeans_predict self data = (Inr results, self')"
    by (auto simp: predict_def split: prod.splits sum.splits)
  then obtain processed where pre: "seg_preprocess_data data = Inr processed"
    by (cases "seg_preprocess_data data") (simp_all add: predict_body_def)
  obtain r self1 where e: "seg_engineer_features self processed = (r, self1)"
    by (cases "seg_engineer_features self processed")
  with b pre obtain features where r: "r = Inr features"
    by (cases r) (simp_all add: predict_body_def)
  from seg_engineer_scaled [OF e [unfolded r]] obtain sc where
    sc: "StandardScaler_fit (map snd (seg_features processed)) = Inr sc"
    and s1: "scaler self1 = Some sc"
    and f: "map snd features = StandardScaler_transform sc (map snd (seg_features processed))"
    by blast
  have m1: "model self1 = model self"
    using seg_engineer_model [of self processed] e by simp
  from b pre e r have b1:
    "(case model self1 of
        None \<Rightarrow> (Inl AttributeError, self1)
      | Some Unfitted \<Rightarrow> (Inl AttributeError, self1)
      | Some (Fitted centers) \<Rightarrow>
          (case KMeans_predict centers (map snd features) of
             Inl e \<Rightarrow> (Inl e, self1)
           | Inr segments \<Rightarrow>
               if length segments \<noteq> length processed
               then (Inl ValueError, self1)
               else
                 (case get_segment_descriptions self1 centers of
                    Inl e \<Rightarrow> (Inl e, self1)
                  | Inr descriptions \<Rightarrow>
                      (Inr (map (\<lambda>(p, s).
                              \<lparr>seg_row.customer_id = seg_profile.customer_id p, segment = s,
                               segment_description = map_of descriptions s\<rparr>)
                            (zip processed segments)),
                       self1)))) = (Inr results, self')"
    by (simp add: predict_body_def)
  then obtain centers where c: "model self1 = Some (Fitted centers)"
    by (cases "model self1") (auto split: kmeans.splits)
  with b1 have b2:
    "(case KMeans_predict centers (map snd features) of
        Inl e \<Rightarrow> (Inl e, self1)
      | Inr segments \<Rightarrow>
          if length segments \<noteq> length processed
          then (Inl ValueError, self1)
          else
            (case get_segment_descriptions self1 centers of
               Inl e \<Rightarrow> (Inl e, self1)
             | Inr descriptions \<Rightarrow>
                 (Inr (map (\<lambda>(p, s).
                         \<lparr>seg_row.customer_id = seg_profile.customer_id p, segment = s,
                          segment_description = map_of descriptions s\<rparr>)
                       (zip processed segments)),
                  self1))) = (Inr results, self')"
    by simp
  then obtain segments where k: "KMeans_predict centers (map snd features) = Inr segments"
    by (cases "KMeans_predict centers (map snd features)") simp_all
  with b2 have l: "length segments = length processed"
    by (simp split: if_splits)
  with b2 k have b3:
    "(case get_segment_descriptions self1 centers of
        Inl e \<Rightarrow> (Inl e, self1)
      | Inr descriptions \<Rightarrow>
          (Inr (map (\<lambda>(p, s).
                  \<lparr>seg_row.customer_id = seg_profile.customer_id p, segment = s,
                   segment_description = map_of descriptions s\<rparr>)
                (zip processed segments)),
           self1)) = (Inr results, self')"
    by simp
  then obtain descriptions where
    res: "results = map (\<lambda>(p, s).
                  \<lparr>seg_row.customer_id = seg_profile.customer_id p, segment = s,
                   segment_description = map_of descriptions s\<rparr>)
                (zip processed segments)"
    and self': "self' = self1"
    by (cases "get_segment_descriptions self1 centers") auto
  have "map seg_row.segment results = map snd (zip processed segments)"
    unfolding res by (simp add: case_prod_unfold comp_def)
  then have "map seg_row.segment results = segments"
    using l by (simp add: map_snd_zip)
  with pre sc s1 c k f m1 self'
  show "\<exists>processed sc centers segments.
         seg_preprocess_data data = Inr processed \<and>
         StandardScaler_fit (map snd (seg_features processed)) = Inr sc \<and>
         scaler self' = Some sc \<and>
         model self = Some (Fitted centers) \<and>
         KMeans_predict centers
           (StandardScaler_transform sc (map snd (seg_features processed))) = Inr segments \<and>
         map seg_row.segment results = segments"
    by auto
next
  assume t: "train KMeans_fit now self data = (Inr (), self')"
  then obtain processed where pre: "seg_preprocess_data data = Inr processed"
    by (cases "seg_preprocess_data data") (simp_all add: train_def)
  obtain r self1 where e: "seg_engineer_features self processed = (r, self1)"
    by (cases "seg_engineer_features self processed")
  with t pre obtain features where r: "r = Inr features"
    by (cases r) (simp_all add: train_def)
  from seg_engineer_scaled [OF e [unfolded r]] obtain sc where
    sc: "StandardScaler_fit (map snd (seg_features processed)) = Inr sc"
    and s1: "scaler self1 = Some sc"
    and f: "map snd features = StandardScaler_transform sc (map snd (seg_features processed))"
    by blast
  have n1: "n_clusters self1 = n_clusters self"
    using seg_engineer_n_clusters [of self processed] e by simp
  from t pre e r obtain centers where
    k: "KMeans_fit (n_clusters self1) (map snd features) = Inr centers"
    and self': "self' = self1\<lparr>model := Some (Fitted centers), last_trained := Some now\<rparr>"
    by (auto simp: train_def split: sum.splits)
  with pre sc s1 f n1
  show "\<exists>processed sc centers.
         seg_preprocess_data data = Inr processed \<and>
         StandardScaler_fit (map snd (seg_features processed)) = Inr sc \<and>
         scaler self' = Some sc \<and>
         KMeans_fit (n_clusters self)
           (StandardScaler_transform sc (map snd (seg_features processed))) = Inr centers \<and>
         model self' = Some (Fitted centers)"
    by auto
next
  show "save_model (self\<lparr>scaler := s\<rparr>) = save_model self"
    by (simp add: save_model_def split: option.splits)
next
  show "scaler (load_model self md) = scaler self"
    by (simp add: load_model_def)
qed

theorem scaler_refit_witness:
  "\<exists>processed sc centers segments.
     seg_preprocess_data batch_B = Inr processed \<and>
     StandardScaler_fit (map snd (seg_features processed)) = Inr sc \<and>
     scaler (snd (predict zero_KMeans_predict trained_A batch_B)) = Some sc \<and>
     model trained_A = Some (Fitted centers) \<and>
     zero_KMeans_predict centers
       (StandardScaler_transform sc (map snd (seg_features processed))) = Inr segments \<and>
     segments = [0, 0]"
proof -
  have "predict zero_KMeans_predict trained_A batch_B =
        (Inr [\<lparr>seg_row.customer_id = ''A'', segment = 0, segment_description = Some ''Average''\<rparr>,
              \<lparr>seg_row.customer_id = ''B'', segment = 0, segment_description = Some ''Average''\<rparr>],
         snd (predict zero_KMeans_predict trained_A batch_B))"
    using predict_B_result by (metis prod.collapse)
  from scaler_refit_on_every_call [THEN conjunct2, THEN conjunct1, rule_format, OF this]
  show ?thesis by auto
qed

text \<open>
  C3 as stated fails: after training on \<open>batch_A\<close> the fitted means are those of
  \<open>batch_A\<close>; a successful \<open>predict\<close> on \<open>batch_B\<close> leaves the means of
  \<open>batch_B\<close>; and \<open>save_model\<close> writes the same state with and without a fitted
  scaler.
\<close>

theorem predict_refits_scaler_counterexample:
  "map_option sc_mean (scaler trained_A) =
     Some [Fin 20, Fin 1, Fin 10, Fin (2 / 3), Fin 1, Fin 1, Fin 15, Fin 1] \<and>
   fst (predict zero_KMeans_predict trained_A batch_B) =
     Inr [\<lparr>seg_row.customer_id = ''A'', segment = 0, segment_description = Some ''Average''\<rparr>,
          \<lparr>seg_row.customer_id = ''B'', segment = 0, segment_description = Some ''Average''\<rparr>] \<and>
   map_option sc_mean (scaler (snd (predict zero_KMeans_predict trained_A batch_B))) =
     Some [Fin 200, Fin (1 / 2), Fin 10, Fin (1 / 15), Fin 1, Fin 1, Fin 30, Fin 1] \<and>
   save_model (trained_A\<lparr>scaler := None\<rparr>) = save_model trained_A"
  by (simp add: trained_A_mean predict_B_result predict_B_mean save_model_def
      split: option.splits)

section \<open>Properties of the aggregation\<close>

lemma days_nonneg: "0 \<le> d \<Longrightarrow> 0 \<le> days d"
  by (simp add: days_def day_def pos_imp_zdiv_nonneg_iff)

lemma group_of_nonempty:
  "c \<in> set (group_keys ts) \<Longrightarrow> group_of ts c \<noteq> []"
  by (auto simp: group_keys_def group_of_def filter_empty_conv)

lemma group_of_subset: "set (group_of ts c) \<subseteq> set ts"
  by (auto simp: group_of_def)

lemma group_max_le:
  assumes "c \<in> set (group_keys ts)"
  shows "Max (set (map transaction_timestamp (group_of ts c))) \<le>
         Max (set (map transaction_timestamp ts))"
proof (rule Max_mono)
  show "set (map transaction_timestamp (group_of ts c)) \<subseteq> set (map transaction_timestamp ts)"
    using group_of_subset [of ts c] by auto
  show "set (map transaction_timestamp (group_of ts c)) \<noteq> {}"
    using group_of_nonempty [OF assms] by simp
  show "finite (set (map transaction_timestamp ts))" by simp
qed

lemma seg_preprocess_rows:
  assumes "seg_preprocess_data data = Inr ps" "p \<in> set ps"
  shows "seg_profile.customer_id p \<in> set (group_keys (rows data))"
    and "seg_profile.last_transaction_date p =
         Max (set (map transaction_timestamp (group_of (rows data) (seg_profile.customer_id p))))"
    and "seg_profile.days_since_last_visit p =
         days (Max (set (map transaction_timestamp (rows data))) -
               seg_profile.last_transaction_date p)"
  using assms
  by (auto simp: seg_preprocess_data_def Let_def split: if_splits)

lemma rec_preprocess_nth:
  assumes "rec_preprocess_data clock data = Inr qs" "i < length qs"
  shows "rec_profile.days_since_last_visit (qs ! i) =
         days (clock i - Max (set (map transaction_timestamp
                 (group_of (rows data) (rec_profile.customer_id (qs ! i))))))"
  using assms
  by (auto simp: rec_preprocess_data_def Let_def nth_enumerate_eq split: if_splits)

text \<open>
  C4, as the code has it. In the segmentation pipeline every profile of a frame has
  \<open>days_since_last_visit\<close> equal to the whole days between the maximum timestamp of
  the frame and the customer's own maximum; it is not negative, and zero when the two
  coincide; no clock enters. In the recommendation pipeline the \<open>i\<close>-th profile has
  the whole days between the reading of the clock made for its group and the customer's
  own maximum timestamp.
\<close>

theorem days_since_last_visit_of_both_pipelines:
  "(seg_preprocess_data data = Inr ps \<and> p \<in> set ps \<longrightarrow>
      seg_profile.last_transaction_date p =
        Max (set (map transaction_timestamp (group_of (rows data) (seg_profile.customer_id p)))) \<and>
      seg_profile.days_since_last_visit p =
        days (Max (set (map transaction_timestamp (rows data))) -
              seg_profile.last_transaction_date p) \<and>
      0 \<le> seg_profile.days_since_last_visit p \<and>
      (seg_profile.last_transaction_date p = Max (set (map transaction_timestamp (rows data)))
         \<longrightarrow> seg_profile.days_since_last_visit p = 0)) \<and>
   (rec_preprocess_data clock data = Inr qs \<and> i < length qs \<longrightarrow>
      rec_profile.days_since_last_visit (qs ! i) =
        days (clock i - Max (set (map transaction_timestamp
                (group_of (rows data) (rec_profile.customer_id (qs ! i)))))))"
proof (intro conjI impI)
  assume a: "seg_preprocess_data data = Inr ps \<and> p \<in> set ps"
  note r = seg_preprocess_rows [of data ps p]
  show l: "seg_profile.last_transaction_date p =
        Max (set (map transaction_timestamp (group_of (rows data) (seg_profile.customer_id p))))"
    using a r(2) by simp
  show d: "seg_profile.days_since_last_visit p =
        days (Max (set (map transaction_timestamp (rows data))) -
              seg_profile.last_transaction_date p)"
    using a r(3) by simp
  have "seg_profile.last_transaction_date p \<le> Max (set (map transaction_timestamp (rows data)))"
    using a r(1) l group_max_le [of "seg_profile.customer_id p" "rows data"] by simp
  then show "0 \<le> seg_profile.days_since_last_visit p"
    using d days_nonneg by simp
  show "seg_profile.days_since_last_visit p = 0"
    if "seg_profile.last_transaction_date p = Max (set (map transaction_timestamp (rows data)))"
    using that d by (simp add: days_def)
next
  assume "rec_preprocess_data clock data = Inr qs \<and> i < length qs"
  then show "rec_profile.days_since_last_visit (qs ! i) =
        days (clock i - Max (set (map transaction_timestamp
                (group_of (rows data) (rec_profile.customer_id (qs ! i))))))"
    using rec_preprocess_nth by blast
qed

lemma rec_pre_batch_A:
  "rec_preprocess_data (clock_at t) batch_A =
   Inr [\<lparr>rec_profile.customer_id = ''A'', transaction_count = 1,
         days_since_last_visit = days t, total_spend = 10, average_transaction = 10,
         total_points = 10, average_points = 10, unique_banners = 1,
         average_basket_size = 1\<rparr>,
        \<lparr>rec_profile.customer_id = ''B'', transaction_count = 1,
         days_since_last_visit = days (t - 30 * day), total_spend = 30,
         average_transaction = 30, total_points = 10, average_points = 10,
         unique_banners = 1, average_basket_size = 1\<rparr>]"
  by (simp add: rec_preprocess_data_def all_columns_def missing_cols_def purchase_def
      group_keys_def group_of_def mean_def batch_A_def clock_at_def enumerate_eq_zip)

theorem days_since_last_visit_witness:
  "seg_preprocess_data batch_A =
     Inr [\<lparr>seg_profile.customer_id = ''A'', transaction_count = 1, last_transaction_date = 0,
           days_since_last_visit = 30, total_spend = 10, average_transaction_value = 10,
           total_points = 10, average_points_earned = 10, unique_banners = 1,
           average_basket_size = 1\<rparr>,
          \<lparr>seg_profile.customer_id = ''B'', transaction_count = 1,
           last_transaction_date = 30 * day, days_since_last_visit = 0, total_spend = 30,
           average_transaction_value = 30, total_points = 10, average_points_earned = 10,
           unique_banners = 1, average_basket_size = 1\<rparr>] \<and>
   (30::int) = days (Max (set (map transaction_timestamp (rows batch_A))) - 0) \<and>
   rec_profile.days_since_last_visit
     (projr (rec_preprocess_data (clock_at (35 * day)) batch_A) ! 1) =
   days (clock_at (35 * day) 1 - Max (set (map transaction_timestamp (group_of (rows batch_A) ''B''))))"
  using days_since_last_visit_of_both_pipelines
    [of batch_A
        "projr (seg_preprocess_data batch_A)"
        "hd (projr (seg_preprocess_data batch_A))"
        "clock_at (35 * day)"
        "projr (rec_preprocess_data (clock_at (35 * day)) batch_A)" 1]
  by (simp add: pre_batch_A rec_pre_batch_A)

text \<open>
  C4 as stated fails for the recommendation pipeline: on \<open>batch_A\<close>, whose latest
  purchase (customer \<open>B\<close>) is at day 30, a clock at day 35 gives 35 and 5 days, a clock
  at day 40 gives 40 and 10, and a clock at day 29 gives 29 and -1.
\<close>

theorem rec_recency_wall_clock_counterexample:
  "map_sum id (map rec_profile.days_since_last_visit)
     (rec_preprocess_data (clock_at (35 * day)) batch_A) = Inr [35, 5] \<and>
   map_sum id (map rec_profile.days_since_last_visit)
     (rec_preprocess_data (clock_at (40 * day)) batch_A) = Inr [40, 10] \<and>
   map_sum id (map rec_profile.days_since_last_visit)
     (rec_preprocess_data (clock_at (29 * day)) batch_A) = Inr [29, - 1]"
  by (simp add: rec_pre_batch_A days_def day_def)

section \<open>Properties of feature engineering and offer generation\<close>

lemma MinMaxScaler_nonempty:
  "MinMaxScaler_fit_transform ops X = Inr v \<Longrightarrow> v \<noteq> []"
  by (auto simp: MinMaxScaler_fit_transform_def Let_def split: if_splits)

lemma scaled_column_empty_frame:
  "\<exists>e. scaled_column ops empty_frame key X = Inl e"
  by (cases "MinMaxScaler_fit_transform ops X")
     (auto simp: scaled_column_def setitem_2d_def empty_frame_def dest: MinMaxScaler_nonempty)

lemma rec_engineer_features_raises:
  "rec_engineer_features ops data = Inl FeatureError"
proof -
  obtain e where
    "scaled_column ops empty_frame ''total_spend'' (map rec_profile.total_spend data) = Inl e"
    using scaled_column_empty_frame by blast
  then show ?thesis
    by (simp add: rec_engineer_features_def)
qed

lemma generate_offers_raises:
  "generate_offers ops clock customer_data segment_data n_offers = Inl ModelError"
  by (simp add: generate_offers_def generate_offers_body_def rec_engineer_features_raises
      split: sum.splits)

text \<open>
  C7. The recommendation feature engineering raises \<open>FeatureError\<close> for every frame
  of profiles and every rounding of the arithmetic, so it returns no feature at all: its
  first statement assigns the 2-D result of the scaler to a column of the empty frame,
  and that assignment raises for every non-empty value (an empty frame of profiles is
  rejected by the scaler before).
\<close>

theorem rec_engineer_features_always_raises:
  "rec_engineer_features ops data = Inl FeatureError \<and>
   setitem_2d empty_frame key (row # v) = Inl ValueError \<and>
   MinMaxScaler_fit_transform ops [] = Inl ValueError"
  by (simp add: rec_engineer_features_raises setitem_2d_def empty_frame_def
      MinMaxScaler_fit_transform_def)

text \<open>
  C2. If a customer of the transaction frame is absent from the segment frame,
  \<open>generate_offers\<close> raises \<open>ModelError\<close> and returns no mapping, and so it does
  for a transaction frame without rows. It raises \<open>ModelError\<close> for every other
  input as well, since feature engineering always raises.
\<close>

theorem generate_offers_raises_for_unknown_customer:
  "((\<exists>c\<in>set (map txn.customer_id (rows customer_data)).
       c \<notin> set (map seg_row.customer_id (seg_rows segment_data))) \<longrightarrow>
      generate_offers ops clock customer_data segment_data n_offers = Inl ModelError) \<and>
   (rows customer_data = [] \<longrightarrow>
      generate_offers ops clock customer_data segment_data n_offers = Inl ModelError) \<and>
   generate_offers ops clock customer_data segment_data n_offers = Inl ModelError"
  by (simp add: generate_offers_raises)

theorem generate_offers_unknown_customer_witness:
  "(\<exists>c\<in>set (map txn.customer_id (rows five_purchases)).
      c \<notin> set (map seg_row.customer_id (seg_rows (segments_of ''B'')))) \<and>
   generate_offers exact_ops (clock_at 0) five_purchases (segments_of ''B'') 3 = Inl ModelError \<and>
   rows \<lparr>columns = all_columns, rows = []\<rparr> = [] \<and>
   generate_offers exact_ops (clock_at 0) \<lparr>columns = all_columns, rows = []\<rparr>
     (segments_of ''B'') 3 = Inl ModelError"
  using generate_offers_raises_for_unknown_customer
      [of five_purchases "segments_of ''B''" exact_ops "clock_at 0" 3]
    generate_offers_raises_for_unknown_customer
      [of "\<lparr>columns = all_columns, rows = []\<rparr>" "segments_of ''B''" exact_ops "clock_at 0" 3]
  by (simp add: five_purchases_def segments_of_def purchase_def)





section \<open>Properties of the ranking\<close>

lemma keys_of_zip:
  "keys_of f xs = Inr ks \<Longrightarrow> (\<And>x v. x \<in> set xs \<Longrightarrow> f x = Inr v \<Longrightarrow> v = g x) \<Longrightarrow>
   zip ks xs = map (\<lambda>x. (g x, x)) xs"
  by (induction xs arbitrary: ks) (auto split: sum.splits)

lemma keys_of_defined:
  "keys_of f xs = Inr ks \<Longrightarrow> x \<in> set xs \<Longrightarrow> \<exists>v. f x = Inr v"
  by (induction xs arbitrary: ks) (auto split: sum.splits)

lemma keys_of_total:
  "(\<And>x. x \<in> set xs \<Longrightarrow> \<exists>v. f x = Inr v) \<Longrightarrow> \<exists>ks. keys_of f xs = Inr ks"
proof (induction xs)
  case Nil
  then show ?case by simp
next
  case (Cons a xs)
  then obtain v ks where "f a = Inr v" "keys_of f xs = Inr ks"
    by (meson list.set_intros)
  then show ?case by simp
qed

lemma segment_multiplier_spec:
  "segment_multiplier customer = spec_segment_multiplier (segment_description customer)"
  by (simp add: segment_multiplier_def spec_segment_multiplier_def segment_multipliers_def
      split: option.splits)

lemma calculate_offer_value_spec:
  "calculate_offer_value ops x customer = Inr v \<Longrightarrow> v = spec_score ops x customer"
  by (auto simp: calculate_offer_value_def base_value_def spec_score_def spend_threshold_def
      segment_multiplier_spec split: sum.splits if_splits option.splits)

lemma sort_reverse_decorated:
  fixes g :: "'a \<Rightarrow> real"
  defines "R xs \<equiv> map snd (sort_reverse (map (\<lambda>x. (g x, x)) xs))"
  shows "mset (R xs) = mset xs"
    and "sorted (rev (map g (R xs)))"
    and "filter (\<lambda>x. g x = v) (R xs) = filter (\<lambda>x. g x = v) xs"
proof -
  let ?L = "map (\<lambda>x. (g x, x)) xs"
  let ?S = "sort_key fst (rev ?L)"
  have inv: "fst p = g (snd p)" if "p \<in> set ?S" for p
    using that by auto
  have R: "R xs = map snd (rev ?S)"
    by (simp add: R_def sort_reverse_def)
  have "mset (R xs) = image_mset snd (mset ?S)"
    by (simp add: R)
  also have "\<dots> = image_mset snd (mset ?L)"
    by simp
  also have "\<dots> = mset xs"
    by (simp add: image_mset.compositionality comp_def)
  finally show "mset (R xs) = mset xs" .
  have "map g (R xs) = map (\<lambda>p. g (snd p)) (rev ?S)"
    by (simp add: R comp_def)
  also have "\<dots> = map fst (rev ?S)"
    by (rule map_cong) (simp_all add: inv del: set_map)
  finally have "rev (map g (R xs)) = map fst ?S"
    by (simp add: rev_map)
  then show "sorted (rev (map g (R xs)))"
    by simp
  have "filter (\<lambda>x. g x = v) (R xs) = map snd (filter (\<lambda>p. g (snd p) = v) (rev ?S))"
    by (simp add: R filter_map comp_def)
  also have "filter (\<lambda>p. g (snd p) = v) (rev ?S) = filter (\<lambda>p. fst p = v) (rev ?S)"
    by (rule filter_cong) (simp_all add: inv del: set_map)
  also have "\<dots> = rev (filter (\<lambda>p. fst p = v) ?S)"
    by (simp add: rev_filter)
  also have "filter (\<lambda>p. fst p = v) ?S = filter (\<lambda>p. fst p = v) (rev ?L)"
    by (rule sort_key_stable)
  also have "map snd (rev (filter (\<lambda>p. fst p = v) (rev ?L))) = filter (\<lambda>x. g x = v) xs"
    by (simp add: rev_filter filter_map comp_def)
  finally show "filter (\<lambda>x. g x = v) (R xs) = filter (\<lambda>x. g x = v) xs" .
qed

lemma candidate_offers_scored:
  assumes "candidate_offers clock k customer features = (Inr cands, k')" "x \<in> set cands"
  shows "calculate_offer_value ops x customer = Inr (spec_score ops x customer)"
proof -
  have "offer_type x \<noteq> THRESHOLD_BONUS \<or> conditions x = [(''spend_threshold'', 150)]"
    using assms
    by (auto simp: candidate_offers_def points_multiplier_rule_def cross_banner_rule_def
        category_discount_rule_def threshold_bonus_rule_def points_bonus_rule_def
        split: if_splits sum.splits)
  then show ?thesis
    by (cases "offer_type x = POINTS_MULTIPLIER"; cases "offer_type x = THRESHOLD_BONUS")
       (simp_all add: calculate_offer_value_def base_value_def spec_score_def
          spend_threshold_def segment_multiplier_spec)
qed

lemma slice_to_nonneg: "0 \<le> n \<Longrightarrow> slice_to n xs = take (nat n) xs"
  by (simp add: slice_to_def)

text \<open>
  C6. For every rounding of the arithmetic: whenever
  \<^verbatim>\<open>_generate_customer_offers\<close> returns, there are the candidates of
  the rules, in rule order, and a ranked list such that: the key of every candidate is
  the score in the words of the specification; the ranked list is a rearrangement of
  the candidates, in descending order of score, and the candidates of any one score keep
  their rule order in it; the result is the slice \<^verbatim>\<open>[:n_offers]\<close> of the ranked list,
  which for \<open>n_offers \<ge> 0\<close> is its first \<open>n_offers\<close> elements, at most
  \<open>n_offers\<close> many. The ranking itself never raises: once the rules have produced
  their candidates the function returns.
\<close>

theorem offers_ranked_by_final_score:
  "(generate_customer_offers ops clock k customer features n_offers = (Inr result, k') \<longrightarrow>
      (\<exists>cands ranked.
         candidate_offers clock k customer features = (Inr cands, k') \<and>
         (\<forall>x\<in>set cands. calculate_offer_value ops x customer = Inr (spec_score ops x customer)) \<and>
         mset ranked = mset cands \<and>
         sorted (rev (map (\<lambda>x. spec_score ops x customer) ranked)) \<and>
         (\<forall>v. filter (\<lambda>x. spec_score ops x customer = v) ranked =
               filter (\<lambda>x. spec_score ops x customer = v) cands) \<and>
         result = slice_to n_offers ranked \<and>
         (0 \<le> n_offers \<longrightarrow>
            result = take (nat n_offers) ranked \<and> int (length result) \<le> n_offers))) \<and>
   (candidate_offers clock k customer features = (Inr cands', k') \<longrightarrow>
      (\<exists>result. generate_customer_offers ops clock k customer features n_offers = (Inr result, k')))"
proof (intro conjI impI)
  assume g: "generate_customer_offers ops clock k customer features n_offers = (Inr result, k')"
  let ?f = "\<lambda>x. calculate_offer_value ops x customer"
  let ?g = "\<lambda>x. spec_score ops x customer"
  from g obtain cands ks where c: "candidate_offers clock k customer features = (Inr cands, k')"
    and ks: "keys_of ?f cands = Inr ks"
    and r: "result = slice_to n_offers (map snd (sort_reverse (zip ks cands)))"
    by (auto simp: generate_customer_offers_def sorted_reverse_def
        split: prod.splits sum.splits)
  have sc: "?f x = Inr (?g x)" if "x \<in> set cands" for x
    using keys_of_defined [OF ks that] calculate_offer_value_spec by blast
  have z: "zip ks cands = map (\<lambda>x. (?g x, x)) cands"
    using ks by (rule keys_of_zip) (simp add: calculate_offer_value_spec)
  let ?ranked = "map snd (sort_reverse (map (\<lambda>x. (?g x, x)) cands))"
  have "mset ?ranked = mset cands" "sorted (rev (map ?g ?ranked))"
    "\<forall>v. filter (\<lambda>x. ?g x = v) ?ranked = filter (\<lambda>x. ?g x = v) cands"
    using sort_reverse_decorated [where g = ?g and xs = cands] by simp_all
  moreover have "result = slice_to n_offers ?ranked"
    using r z by simp
  moreover have "0 \<le> n_offers \<longrightarrow>
      slice_to n_offers ?ranked = take (nat n_offers) ?ranked \<and>
      int (length (slice_to n_offers ?ranked)) \<le> n_offers"
    by (auto simp: slice_to_nonneg min_def)
  ultimately show "\<exists>cands ranked.
         candidate_offers clock k customer features = (Inr cands, k') \<and>
         (\<forall>x\<in>set cands. calculate_offer_value ops x customer = Inr (spec_score ops x customer)) \<and>
         mset ranked = mset cands \<and>
         sorted (rev (map (\<lambda>x. spec_score ops x customer) ranked)) \<and>
         (\<forall>v. filter (\<lambda>x. spec_score ops x customer = v) ranked =
               filter (\<lambda>x. spec_score ops x customer = v) cands) \<and>
         result = slice_to n_offers ranked \<and>
         (0 \<le> n_offers \<longrightarrow>
            result = take (nat n_offers) ranked \<and> int (length result) \<le> n_offers)"
    using c sc by blast
next
  assume c: "candidate_offers clock k customer features = (Inr cands', k')"
  have "\<exists>ks. keys_of (\<lambda>x. calculate_offer_value ops x customer) cands' = Inr ks"
    by (rule keys_of_total) (simp add: candidate_offers_scored [OF c])
  then show "\<exists>result. generate_customer_offers ops clock k customer features n_offers =
      (Inr result, k')"
    using c by (auto simp: generate_customer_offers_def sorted_reverse_def)
qed

lemma tie_candidates:
  "candidate_offers (clock_at 0) 0 tie_customer tie_features =
   (Inr [\<lparr>offer.offer_type = POINTS_MULTIPLIER, offer_value = 2,
          conditions = [(''min_spend'', 50)], start_date = 0, end_date = 30 * day,
          target_banners = None, target_categories = None\<rparr>,
         \<lparr>offer.offer_type = POINTS_BONUS, offer_value = 250,
          conditions = [(''min_spend'', 25)], start_date = 0, end_date = 7 * day,
          target_banners = None, target_categories = None\<rparr>], 4)"
  by (simp add: candidate_offers_def points_multiplier_rule_def cross_banner_rule_def
      category_discount_rule_def threshold_bonus_rule_def points_bonus_rule_def
      tie_features_def clock_at_def)

lemma tie_scores:
  "calculate_offer_value exact_ops
     \<lparr>offer.offer_type = POINTS_MULTIPLIER, offer_value = 2,
      conditions = [(''min_spend'', 50)], start_date = 0, end_date = 30 * day,
      target_banners = None, target_categories = None\<rparr> tie_customer = Inr 250"
  "calculate_offer_value exact_ops
     \<lparr>offer.offer_type = POINTS_BONUS, offer_value = 250,
      conditions = [(''min_spend'', 25)], start_date = 0, end_date = 7 * day,
      target_banners = None, target_categories = None\<rparr> tie_customer = Inr 250"
  by (simp_all add: calculate_offer_value_def base_value_def segment_multiplier_def
      segment_multipliers_def tie_customer_def exact_ops_def)

lemma tie_result:
  "generate_customer_offers exact_ops (clock_at 0) 0 tie_customer tie_features 1 =
   (Inr [\<lparr>offer.offer_type = POINTS_MULTIPLIER, offer_value = 2,
          conditions = [(''min_spend'', 50)], start_date = 0, end_date = 30 * day,
          target_banners = None, target_categories = None\<rparr>], 4)"
  by (simp add: generate_customer_offers_def tie_candidates sorted_reverse_def tie_scores
      sort_reverse_def slice_to_def)

theorem offers_ranked_witness:
  "generate_customer_offers exact_ops (clock_at 0) 0 tie_customer tie_features 1 =
     (Inr [\<lparr>offer.offer_type = POINTS_MULTIPLIER, offer_value = 2,
            conditions = [(''min_spend'', 50)], start_date = 0, end_date = 30 * day,
            target_banners = None, target_categories = None\<rparr>], 4) \<and>
   (\<exists>ranked.
      mset ranked =
        mset [\<lparr>offer.offer_type = POINTS_MULTIPLIER, offer_value = 2,
                conditions = [(''min_spend'', 50)], start_date = 0, end_date = 30 * day,
                target_banners = None, target_categories = None\<rparr>,
              \<lparr>offer.offer_type = POINTS_BONUS, offer_value = 250,
                conditions = [(''min_spend'', 25)], start_date = 0, end_date = 7 * day,
                target_banners = None, target_categories = None\<rparr>] \<and>
      sorted (rev (map (\<lambda>x. spec_score exact_ops x tie_customer) ranked)) \<and>
      [\<lparr>offer.offer_type = POINTS_MULTIPLIER, offer_value = 2,
        conditions = [(''min_spend'', 50)], start_date = 0, end_date = 30 * day,
        target_banners = None, target_categories = None\<rparr>] = take (nat 1) ranked)"
proof -
  note t = offers_ranked_by_final_score
    [of exact_ops "clock_at 0" 0 tie_customer tie_features 1
        "[\<lparr>offer.offer_type = POINTS_MULTIPLIER, offer_value = 2,
           conditions = [(''min_spend'', 50)], start_date = 0, end_date = 30 * day,
           target_banners = None, target_categories = None\<rparr>]" 4]
  from t tie_result obtain cands ranked where
    "candidate_offers (clock_at 0) 0 tie_customer tie_features = (Inr cands, 4)"
    "mset ranked = mset cands"
    "sorted (rev (map (\<lambda>x. spec_score exact_ops x tie_customer) ranked))"
    "[\<lparr>offer.offer_type = POINTS_MULTIPLIER, offer_value = 2,
       conditions = [(''min_spend'', 50)], start_date = 0, end_date = 30 * day,
       target_banners = None, target_categories = None\<rparr>] = take (nat 1) ranked"
    by auto
  then show ?thesis
    using tie_result tie_candidates by auto
qed

end
